theory Spec2Isabelle
  imports Main "HOL-Library.Word"
begin

section \<open>JavaScript strings\<close>

text \<open>
  A JavaScript string is a sequence of UTF-16 code units and \<open>length\<close> counts code
  units, so a string is a list of code units. \<open>js\<close> embeds a literal.
\<close>

type_synonym jsstring = "nat list"

definition js :: "string \<Rightarrow> jsstring" where
  "js s = map of_char s"

text \<open>\<open>!v\<close> for a value that is a string, \<open>undefined\<close> or \<open>null\<close> (\<open>None\<close>).\<close>

definition truthy :: "jsstring option \<Rightarrow> bool" where
  "truthy v = (case v of None \<Rightarrow> False | Some s \<Rightarrow> s \<noteq> [])"

text \<open>\<open>xs[i]\<close>: \<open>undefined\<close> out of range.\<close>

definition element :: "'a list \<Rightarrow> nat \<Rightarrow> 'a option" where
  "element xs i = (if i < length xs then Some (xs ! i) else None)"

text \<open>\<open>s.split(c)\<close> for a one-character separator: the empty string gives one empty field.\<close>

fun split_on :: "'a \<Rightarrow> 'a list \<Rightarrow> 'a list list" where
  "split_on c [] = [[]]"
| "split_on c (x # xs) =
     (if x = c then [] # split_on c xs
      else (case split_on c xs of [] \<Rightarrow> [[x]] | y # ys \<Rightarrow> (x # y) # ys))"

section \<open>Password hashing (services/authService.ts)\<close>

text \<open>
  \<open>TextEncoder.encode\<close> and \<open>crypto.subtle.digest('SHA-256', _)\<close> belong to the
  platform: they are the parameters \<open>encode\<close> and \<open>digest\<close>. The sixteen random bytes of
  \<open>crypto.getRandomValues\<close> are the argument \<open>salt\<close>.
\<close>

definition colon :: nat where
  "colon = 58"

definition hexdigit :: "nat \<Rightarrow> nat" where
  "hexdigit d = (if d < 10 then 48 + d else 87 + d)"

text \<open>\<open>b.toString(16).padStart(2, '0')\<close> for a byte.\<close>

definition byte_hex :: "8 word \<Rightarrow> jsstring" where
  "byte_hex b = [hexdigit (unat b div 16), hexdigit (unat b mod 16)]"

definition to_hex :: "8 word list \<Rightarrow> jsstring" where
  "to_hex bs = concat (map byte_hex bs)"

definition hashPassword ::
  "(jsstring \<Rightarrow> 8 word list) \<Rightarrow> (8 word list \<Rightarrow> 8 word list) \<Rightarrow> 8 word list \<Rightarrow>
   jsstring \<Rightarrow> jsstring" where
  "hashPassword encode digest salt password =
     (let hashHex = to_hex (digest (encode password));
          saltHex = to_hex salt;
          finalHashHex = to_hex (digest (encode (hashHex @ saltHex)))
      in saltHex @ [colon] @ finalHashHex)"

definition verifyPassword ::
  "(jsstring \<Rightarrow> 8 word list) \<Rightarrow> (8 word list \<Rightarrow> 8 word list) \<Rightarrow> jsstring \<Rightarrow>
   jsstring \<Rightarrow> bool" where
  "verifyPassword encode digest password storedHash =
     (let parts = split_on colon storedHash;
          saltHex = element parts 0;
          storedHashHex = element parts 1
      in if \<not> truthy saltHex \<or> \<not> truthy storedHashHex then False
         else
           (let hashHex = to_hex (digest (encode password));
                finalHashHex = to_hex (digest (encode (hashHex @ the saltHex)))
            in finalHashHex = the storedHashHex))"

text \<open>
  What \<open>verifyPassword\<close> reads of a stored hash: \<open>split(':')\<close> is destructured into its
  first two fields, the text before the first colon and the text between that colon and
  the next one (or the end). Further fields are dropped.
\<close>

definition stored_salt :: "jsstring \<Rightarrow> jsstring" where
  "stored_salt s = takeWhile (\<lambda>c. c \<noteq> colon) s"

definition stored_hash :: "jsstring \<Rightarrow> jsstring" where
  "stored_hash s = takeWhile (\<lambda>c. c \<noteq> colon) (drop 1 (dropWhile (\<lambda>c. c \<noteq> colon) s))"

definition two_fields :: "jsstring \<Rightarrow> bool" where
  "two_fields s \<longleftrightarrow> stored_salt s \<noteq> [] \<and> stored_hash s \<noteq> []"

text \<open>
  The format of the documentation comment of \<open>hashPassword\<close>, \<open>salt:hash\<close> with both
  parts hex strings: exactly two fields, each a non-empty string of hex digits.
\<close>

definition is_hex :: "nat \<Rightarrow> bool" where
  "is_hex c \<longleftrightarrow> (48 \<le> c \<and> c \<le> 57) \<or> (97 \<le> c \<and> c \<le> 102) \<or> (65 \<le> c \<and> c \<le> 70)"

definition salt_hash_form :: "jsstring \<Rightarrow> bool" where
  "salt_hash_form s =
     (case split_on colon s of
        [a, b] \<Rightarrow> a \<noteq> [] \<and> b \<noteq> [] \<and> list_all is_hex a \<and> list_all is_hex b
      | _ \<Rightarrow> False)"

text \<open>A sample platform: an encoder and a digest of thirty-two bytes.\<close>

definition demo_encode :: "jsstring \<Rightarrow> 8 word list" where
  "demo_encode s = map of_nat s"

definition demo_digest :: "8 word list \<Rightarrow> 8 word list" where
  "demo_digest b = replicate 32 (of_nat (length b))"

section \<open>CSV import (module utils/csvHelper, in unnamed/part_000)\<close>

text \<open>The characters that \<open>trim\<close> strips and \<open>\s\<close> matches.\<close>

definition is_ws :: "nat \<Rightarrow> bool" where
  "is_ws c \<longleftrightarrow>
     c \<in> {9, 10, 11, 12, 13, 32, 160, 5760, 8232, 8233, 8239, 8287, 12288, 65279} \<or>
     (8192 \<le> c \<and> c \<le> 8202)"

definition trim :: "jsstring \<Rightarrow> jsstring" where
  "trim s = rev (dropWhile is_ws (rev (dropWhile is_ws s)))"

definition lf :: nat where
  "lf = 10"

definition cr :: nat where
  "cr = 13"

definition comma :: nat where
  "comma = 44"

definition space :: nat where
  "space = 32"

text \<open>\<open>s.replace(/\r\n/g, '\n')\<close> and \<open>s.replace(/\r/g, '\n')\<close>.\<close>

fun replace_crlf :: "jsstring \<Rightarrow> jsstring" where
  "replace_crlf (x # y # xs) =
     (if x = cr \<and> y = lf then lf # replace_crlf xs else x # replace_crlf (y # xs))"
| "replace_crlf xs = xs"

definition replace_cr :: "jsstring \<Rightarrow> jsstring" where
  "replace_cr s = map (\<lambda>c. if c = cr then lf else c) s"

text \<open>\<open>s.split(/\s+/)\<close>: a run of white space is one separator.\<close>

function split_ws :: "jsstring \<Rightarrow> jsstring list" where
  "split_ws [] = [[]]"
| "split_ws (x # xs) =
     (if is_ws x then [] # split_ws (dropWhile is_ws xs)
      else (case split_ws xs of [] \<Rightarrow> [[x]] | y # ys \<Rightarrow> (x # y) # ys))"
  by pat_completeness auto
termination
  by (relation "measure length") (auto simp: less_Suc_eq_le length_dropWhile_le)

fun join :: "jsstring \<Rightarrow> jsstring list \<Rightarrow> jsstring" where
  "join sep [] = []"
| "join sep [x] = x"
| "join sep (x # y # ys) = x @ sep @ join sep (y # ys)"

datatype field = FirstName | LastName | Email | Company | Title

type_synonym ColumnMapping = "field \<Rightarrow> jsstring"

record ParsedContact =
  firstName :: jsstring
  lastName :: jsstring
  email :: jsstring
  company :: jsstring
  title :: jsstring
  raw_data :: "jsstring \<rightharpoonup> jsstring"

record ParsedContactsResult =
  contacts :: "ParsedContact list"
  invalidRows :: nat

text \<open>
  What \<open>parseCsvWithMapping\<close> throws: the \<open>Error\<close> that lists the missing columns, and the
  \<open>TypeError\<close> of calling a value that is not a function.
\<close>

datatype csv_error = CouldNotIdentifyColumns "field list" | NotAFunction

definition REQUIRED_FIELDS :: "field list" where
  "REQUIRED_FIELDS = [FirstName, LastName, Email, Company, Title]"

definition sanitizeRows :: "jsstring list \<Rightarrow> jsstring list list" where
  "sanitizeRows lines = map (\<lambda>line. map trim (split_on comma line)) lines"

definition splitFullName :: "jsstring \<Rightarrow> jsstring \<times> jsstring" where
  "splitFullName v =
     (let parts = split_ws (trim v)
      in if length parts = 0 then ([], [])
         else if length parts = 1 then (parts ! 0, [])
         else (parts ! 0, join [space] (drop 1 parts)))"

text \<open>\<open>lines\<close>: the content trimmed, line ends normalised, split at line feeds.\<close>

definition csv_lines :: "jsstring \<Rightarrow> jsstring list" where
  "csv_lines fileContent = split_on lf (replace_cr (replace_crlf (trim fileContent)))"

text \<open>
  \<open>headerIndexMap\<close> and \<open>rawData\<close> are plain objects, created by \<open>{}\<close>, with the
  prototype \<open>Object.prototype\<close>; the map holds the own properties of the object.
  \<open>obj[key] = v\<close> creates or overwrites the own property \<open>key\<close>, except for the key
  \<open>__proto__\<close>: that assignment reaches the setter of \<open>Object.prototype\<close>, which
  ignores a number or a string, and the object gets no own property.
\<close>

definition proto_key :: jsstring where
  "proto_key = js ''__proto__''"

definition hasOwnProperty_key :: jsstring where
  "hasOwnProperty_key = js ''hasOwnProperty''"

definition set_property :: "jsstring \<Rightarrow> 'a \<Rightarrow> (jsstring \<rightharpoonup> 'a) \<Rightarrow> (jsstring \<rightharpoonup> 'a)" where
  "set_property key v obj = (if key = proto_key then obj else obj(key \<mapsto> v))"

definition headerIndexMap :: "jsstring list \<Rightarrow> (jsstring \<rightharpoonup> nat)" where
  "headerIndexMap rawHeaders =
     fold (\<lambda>(header, index) m. set_property header index m)
       (zip rawHeaders [0..<length rawHeaders]) Map.empty"

text \<open>
  \<open>headerIndexMap.hasOwnProperty(headerName)\<close>: the method is read from the object
  itself. With a header named \<open>hasOwnProperty\<close> the object has an own property of that
  name, a column index, and the call throws a \<open>TypeError\<close>; otherwise the method of
  \<open>Object.prototype\<close> tells whether \<open>headerName\<close> is an own property.
\<close>

definition hasOwnProperty :: "(jsstring \<rightharpoonup> nat) \<Rightarrow> jsstring \<Rightarrow> csv_error + bool" where
  "hasOwnProperty obj name =
     (if obj hasOwnProperty_key \<noteq> None then Inl NotAFunction else Inr (obj name \<noteq> None))"

text \<open>
  \<open>REQUIRED_FIELDS.filter(field => !(headerName && headerIndexMap.hasOwnProperty(headerName)))\<close>,
  field by field: the fields kept, or what the callback threw. The method is called only
  for a header name that is not empty.
\<close>

fun missing_columns ::
  "ColumnMapping \<Rightarrow> (jsstring \<rightharpoonup> nat) \<Rightarrow> field list \<Rightarrow> csv_error + field list" where
  "missing_columns mapping hmap [] = Inr []"
| "missing_columns mapping hmap (field # fs) =
     (if mapping field = []
      then (case missing_columns mapping hmap fs of
              Inl e \<Rightarrow> Inl e
            | Inr ms \<Rightarrow> Inr (field # ms))
      else (case hasOwnProperty hmap (mapping field) of
              Inl e \<Rightarrow> Inl e
            | Inr present \<Rightarrow>
                (case missing_columns mapping hmap fs of
                   Inl e \<Rightarrow> Inl e
                 | Inr ms \<Rightarrow> Inr (if present then ms else field # ms))))"

text \<open>
  \<open>getValue\<close> reads \<open>headerIndexMap[headerName]\<close>. For a name that is no own property
  the read gives \<open>undefined\<close> or a member of \<open>Object.prototype\<close> (a function or an
  object), which names no cell of the row; the result is the empty string either way.
\<close>

definition getValue :: "(jsstring \<rightharpoonup> nat) \<Rightarrow> jsstring list \<Rightarrow> jsstring \<Rightarrow> jsstring" where
  "getValue hmap vals headerName =
     (if headerName = [] then []
      else (case hmap headerName of
              None \<Rightarrow> []
            | Some index \<Rightarrow> (case element vals index of None \<Rightarrow> [] | Some v \<Rightarrow> trim v)))"

definition rawData :: "jsstring list \<Rightarrow> jsstring list \<Rightarrow> (jsstring \<rightharpoonup> jsstring)" where
  "rawData rawHeaders vals =
     fold (\<lambda>(header, idx) m.
             set_property header (case element vals idx of None \<Rightarrow> [] | Some v \<Rightarrow> trim v) m)
       (zip rawHeaders [0..<length rawHeaders]) Map.empty"

text \<open>The body of \<open>dataRows.forEach\<close>, on the pair of \<open>contacts\<close> and \<open>invalidRows\<close>.\<close>

definition processRow ::
  "ColumnMapping \<Rightarrow> jsstring list \<Rightarrow> (jsstring \<rightharpoonup> nat) \<Rightarrow> jsstring option \<Rightarrow> jsstring list \<Rightarrow>
   ParsedContact list \<times> nat \<Rightarrow> ParsedContact list \<times> nat" where
  "processRow mapping rawHeaders hmap combinedNameHeader vals st =
     (let firstNameValue0 = getValue hmap vals (mapping FirstName);
          lastNameValue0 = getValue hmap vals (mapping LastName);
          nameParts = splitFullName firstNameValue0;
          firstNameValue = (if truthy combinedNameHeader then fst nameParts else firstNameValue0);
          lastNameValue =
            (if truthy combinedNameHeader
             then (if snd nameParts \<noteq> [] then snd nameParts
                   else getValue hmap vals (mapping LastName))
             else lastNameValue0);
          emailValue = getValue hmap vals (mapping Email);
          companyValue = getValue hmap vals (mapping Company);
          titleValue = getValue hmap vals (mapping Title)
      in if firstNameValue = [] \<or> lastNameValue = [] \<or> emailValue = [] \<or>
            companyValue = [] \<or> titleValue = []
         then (fst st, snd st + 1)
         else (fst st @
                 [\<lparr>firstName = firstNameValue, lastName = lastNameValue, email = emailValue,
                   company = companyValue, title = titleValue,
                   raw_data = rawData rawHeaders vals\<rparr>],
               snd st))"

definition parseCsvWithMapping ::
  "jsstring \<Rightarrow> ColumnMapping \<Rightarrow> csv_error + ParsedContactsResult" where
  "parseCsvWithMapping fileContent mapping =
     (let lines = csv_lines fileContent
      in if length lines < 2 then Inr \<lparr>contacts = [], invalidRows = 0\<rparr>
         else
           (let rawHeaders = map trim (split_on comma (lines ! 0));
                hmap = headerIndexMap rawHeaders
            in case missing_columns mapping hmap REQUIRED_FIELDS of
                 Inl e \<Rightarrow> Inl e
               | Inr missingColumns \<Rightarrow>
                   if length missingColumns > 0
                   then Inl (CouldNotIdentifyColumns missingColumns)
                   else
                     (let combinedNameHeader =
                            (if mapping FirstName \<noteq> [] \<and> mapping LastName \<noteq> [] \<and>
                                mapping FirstName = mapping LastName
                             then Some (mapping FirstName) else None);
                          dataRows = sanitizeRows (drop 1 lines);
                          st = fold (processRow mapping rawHeaders hmap combinedNameHeader)
                                 dataRows ([], 0)
                      in Inr \<lparr>contacts = fst st, invalidRows = snd st\<rparr>)))"

text \<open>
  What the claim speaks of: the header names of a file, its data rows (the lines after the
  header line, cut into trimmed cells), a mapping that names a present, non-empty header
  for each required field, the cell a row holds for a field, and a row that misses one.
\<close>

definition csv_headers :: "jsstring \<Rightarrow> jsstring list" where
  "csv_headers fileContent = map trim (split_on comma (hd (csv_lines fileContent)))"

definition csv_data_rows :: "jsstring \<Rightarrow> jsstring list list" where
  "csv_data_rows fileContent =
     map (\<lambda>line. map trim (split_on comma line)) (tl (csv_lines fileContent))"

definition covers :: "ColumnMapping \<Rightarrow> jsstring \<Rightarrow> bool" where
  "covers mapping fileContent \<longleftrightarrow>
     (\<forall>f \<in> set REQUIRED_FIELDS. mapping f \<noteq> [] \<and> mapping f \<in> set (csv_headers fileContent))"

definition cell :: "jsstring \<Rightarrow> ColumnMapping \<Rightarrow> jsstring list \<Rightarrow> field \<Rightarrow> jsstring" where
  "cell fileContent mapping row f =
     getValue (headerIndexMap (csv_headers fileContent)) row (mapping f)"

definition missing :: "jsstring \<Rightarrow> ColumnMapping \<Rightarrow> jsstring list \<Rightarrow> bool" where
  "missing fileContent mapping row \<longleftrightarrow>
     (\<exists>f \<in> set REQUIRED_FIELDS. cell fileContent mapping row f = [])"

definition kept :: "ParsedContact \<Rightarrow> jsstring \<times> jsstring \<times> jsstring" where
  "kept c = (email c, company c, title c)"

definition named :: "ParsedContact \<Rightarrow> bool" where
  "named c \<longleftrightarrow> firstName c \<noteq> [] \<and> lastName c \<noteq> []"

text \<open>
  Sample files: one with a column named \<open>hasOwnProperty\<close>, one whose first column is
  named \<open>__proto__\<close>; and two mappings, each naming a column of its file for every
  required field.
\<close>

definition csv_with_hasOwnProperty :: jsstring where
  "csv_with_hasOwnProperty =
     js ''hasOwnProperty,f,l,e,c,t'' @ [lf] @ js ''x,Al,Bo,a@b,Co,Dr''"

definition csv_with_proto :: jsstring where
  "csv_with_proto = js ''__proto__,l,e,c,t'' @ [lf] @ js ''Al,Bo,a@b,Co,Dr''"

definition plain_mapping :: ColumnMapping where
  "plain_mapping f =
     (case f of FirstName \<Rightarrow> js ''f'' | LastName \<Rightarrow> js ''l'' | Email \<Rightarrow> js ''e''
      | Company \<Rightarrow> js ''c'' | Title \<Rightarrow> js ''t'')"

definition proto_mapping :: ColumnMapping where
  "proto_mapping f =
     (case f of FirstName \<Rightarrow> js ''__proto__'' | LastName \<Rightarrow> js ''l'' | Email \<Rightarrow> js ''e''
      | Company \<Rightarrow> js ''c'' | Title \<Rightarrow> js ''t'')"

text \<open>
  For the proofs: the check of one row through the cells the mapping names, and the names
  and the contact that \<open>processRow\<close> computes for a row.
\<close>

definition row_missing :: "ColumnMapping \<Rightarrow> (jsstring \<rightharpoonup> nat) \<Rightarrow> jsstring list \<Rightarrow> bool" where
  "row_missing mapping hmap vals \<longleftrightarrow>
     (\<exists>f \<in> set REQUIRED_FIELDS. getValue hmap vals (mapping f) = [])"

definition firstNameOf :: "ColumnMapping \<Rightarrow> (jsstring \<rightharpoonup> nat) \<Rightarrow> jsstring option \<Rightarrow> jsstring list \<Rightarrow> jsstring" where
  "firstNameOf mapping hmap comb vals =
     (if truthy comb then fst (splitFullName (getValue hmap vals (mapping FirstName)))
      else getValue hmap vals (mapping FirstName))"

definition lastNameOf :: "ColumnMapping \<Rightarrow> (jsstring \<rightharpoonup> nat) \<Rightarrow> jsstring option \<Rightarrow> jsstring list \<Rightarrow> jsstring" where
  "lastNameOf mapping hmap comb vals =
     (if truthy comb
      then (if snd (splitFullName (getValue hmap vals (mapping FirstName))) \<noteq> []
            then snd (splitFullName (getValue hmap vals (mapping FirstName)))
            else getValue hmap vals (mapping LastName))
      else getValue hmap vals (mapping LastName))"

definition contactOf ::
  "ColumnMapping \<Rightarrow> jsstring list \<Rightarrow> (jsstring \<rightharpoonup> nat) \<Rightarrow> jsstring option \<Rightarrow> jsstring list \<Rightarrow>
   ParsedContact" where
  "contactOf mapping hdrs hmap comb vals =
     \<lparr>firstName = firstNameOf mapping hmap comb vals,
      lastName = lastNameOf mapping hmap comb vals,
      email = getValue hmap vals (mapping Email),
      company = getValue hmap vals (mapping Company),
      title = getValue hmap vals (mapping Title),
      raw_data = rawData hdrs vals\<rparr>"

section \<open>Stored credentials (table social_credentials)\<close>

text \<open>
  A row of \<open>social_credentials\<close>, with the columns the connect and publish flows read
  or write: those of the SQL setup script and, last, the three that only the LinkedIn
  integration guide and the callback handler in api/linkedin/disconnect.ts name. The columns
  \<open>id\<close>, \<open>created_at\<close> and \<open>updated_at\<close>, which no flow reads, are left out. A
  time is a number of milliseconds since the epoch; \<open>None\<close> is SQL \<open>NULL\<close>.
\<close>

record Credential =
  user_id :: jsstring
  platform :: jsstring
  access_token :: jsstring
  refresh_token :: "jsstring option"
  token_type :: "jsstring option"
  expires_at :: "int option"
  scopes :: "jsstring list option"
  account_id :: "jsstring option"
  account_name :: "jsstring option"
  metadata :: "(jsstring \<times> jsstring option) list option"
  scope :: "jsstring option"
  profile_id :: "jsstring option"
  profile_data :: "(jsstring \<times> jsstring option) list option"

section \<open>The outside of a publish handler\<close>

text \<open>
  What \<open>fetch\<close> gives: no reply at all (the promise rejects), or a reply with its
  \<open>ok\<close> flag, its status and its decoded body.
\<close>

datatype 'a reply = NoReply | Reply bool nat 'a

text \<open>A body as text, and as the object \<open>JSON.parse\<close> makes of it when it is one.\<close>

record Body =
  body_text :: jsstring
  body_json :: "(jsstring \<rightharpoonup> jsstring) option"

datatype MediaCategory = IMAGE | NONE

text \<open>The payload of the content-creation call \<open>POST /v2/ugcPosts\<close>.\<close>

record UgcPost =
  author :: jsstring
  shareCommentary :: jsstring
  shareMediaCategory :: MediaCategory
  media :: "jsstring option"

text \<open>The calls a handler makes, in order.\<close>

datatype call =
    SelectCredential jsstring jsstring
  | RegisterUpload jsstring
  | FetchImage jsstring
  | UploadImage jsstring
  | CreatePost UgcPost
  | CreateTweet jsstring

record World =
  now :: int
  env :: "jsstring \<rightharpoonup> jsstring"
  db_online :: bool
  social_credentials :: "Credential list"
  register_upload :: "jsstring \<Rightarrow> (jsstring \<times> jsstring) option reply"
  fetch_image :: "jsstring \<Rightarrow> 8 word list option reply"
  upload_image :: "jsstring \<Rightarrow> 8 word list \<Rightarrow> unit reply"
  create_post :: "UgcPost \<Rightarrow> Body reply"
  create_tweet :: "jsstring \<Rightarrow> Body reply"

record RequestBody =
  userId :: "jsstring option"
  post_text :: "jsstring option"
  imageUrl :: "jsstring option"

record Request =
  http_method :: jsstring
  body :: "RequestBody option"

record HttpResponse =
  status :: nat
  error :: "jsstring option"
  requiresReauth :: bool
  success :: bool
  postId :: "jsstring option"

definition failure :: "nat \<Rightarrow> jsstring \<Rightarrow> HttpResponse" where
  "failure code msg =
     \<lparr>status = code, error = Some msg, requiresReauth = False, success = False, postId = None\<rparr>"

text \<open>\<open>a || b\<close> on strings that may be undefined.\<close>

definition or_else :: "jsstring option \<Rightarrow> jsstring option \<Rightarrow> jsstring option" where
  "or_else a b = (if truthy a then a else b)"

text \<open>
  \<open>.from('social_credentials').select('*').eq('user_id', u).eq('platform', p).single()\<close>:
  the row when exactly one matches, an error otherwise or when the database is out of
  reach.
\<close>

definition select_single :: "World \<Rightarrow> jsstring \<Rightarrow> jsstring \<Rightarrow> Credential option" where
  "select_single w u p =
     (if db_online w
      then (case filter (\<lambda>c. user_id c = u \<and> platform c = p) (social_credentials w) of
              [c] \<Rightarrow> Some c
            | _ \<Rightarrow> None)
      else None)"

text \<open>\<open>new Date(credentials.expires_at) < new Date()\<close>; \<open>new Date(null)\<close> is the epoch.\<close>

definition token_expired :: "World \<Rightarrow> Credential \<Rightarrow> bool" where
  "token_expired w c = ((case expires_at c of None \<Rightarrow> 0 | Some t \<Rightarrow> t) < now w)"

section \<open>LinkedIn publish handler (api/linkedin/post.ts)\<close>

definition person_urn :: "jsstring \<Rightarrow> jsstring" where
  "person_urn profileId = js ''urn:li:person:'' @ profileId"

text \<open>
  The \<open>try\<close> block of the image upload: the asset when every step went through,
  \<open>None\<close> when one threw, and the calls made.
\<close>

definition upload_steps :: "World \<Rightarrow> jsstring \<Rightarrow> jsstring \<Rightarrow> jsstring option \<times> call list" where
  "upload_steps w profileId url =
     (case register_upload w (person_urn profileId) of
        NoReply \<Rightarrow> (None, [RegisterUpload (person_urn profileId)])
      | Reply ok1 st1 registerData \<Rightarrow>
          if \<not> ok1 then (None, [RegisterUpload (person_urn profileId)])
          else (case registerData of
                  None \<Rightarrow> (None, [RegisterUpload (person_urn profileId)])
                | Some (uploadUrl, asset) \<Rightarrow>
                    (case fetch_image w url of
                       NoReply \<Rightarrow> (None, [RegisterUpload (person_urn profileId), FetchImage url])
                     | Reply ok2 st2 imageBuffer \<Rightarrow>
                         if \<not> ok2
                         then (None, [RegisterUpload (person_urn profileId), FetchImage url])
                         else (case imageBuffer of
                                 None \<Rightarrow>
                                   (None, [RegisterUpload (person_urn profileId), FetchImage url])
                               | Some bytes \<Rightarrow>
                                   (case upload_image w uploadUrl bytes of
                                      NoReply \<Rightarrow>
                                        (None, [RegisterUpload (person_urn profileId),
                                                FetchImage url, UploadImage uploadUrl])
                                    | Reply ok3 st3 u \<Rightarrow>
                                        if \<not> ok3
                                        then (None, [RegisterUpload (person_urn profileId),
                                                     FetchImage url, UploadImage uploadUrl])
                                        else (Some asset,
                                              [RegisterUpload (person_urn profileId),
                                               FetchImage url, UploadImage uploadUrl]))))))"

text \<open>The answer to the reply of \<open>POST /v2/ugcPosts\<close>.\<close>

definition post_outcome :: "Body reply \<Rightarrow> HttpResponse" where
  "post_outcome r =
     (case r of
        NoReply \<Rightarrow> failure 500 (js ''Failed to post to LinkedIn'')
      | Reply ok st b \<Rightarrow>
          if \<not> ok
          then failure st
                 (the (or_else (case body_json b of None \<Rightarrow> None
                                | Some errorJson \<Rightarrow> errorJson (js ''message''))
                         (Some (js ''Failed to post to LinkedIn''))))
          else (case body_json b of
                  None \<Rightarrow> failure 500 (js ''Failed to post to LinkedIn'')
                | Some responseData \<Rightarrow>
                    \<lparr>status = 200, error = None, requiresReauth = False, success = True,
                     postId = responseData (js ''id'')\<rparr>))"

text \<open>\<open>createClient(url, key)\<close> throws when either is missing.\<close>

definition client_ok :: "jsstring option \<Rightarrow> jsstring option \<Rightarrow> bool" where
  "client_ok url key \<longleftrightarrow> truthy url \<and> truthy key"

definition linkedin_post :: "World \<Rightarrow> Request \<Rightarrow> HttpResponse \<times> call list" where
  "linkedin_post w req =
     (if http_method req \<noteq> js ''POST'' then (failure 405 (js ''Method not allowed''), [])
      else (case body req of
        None \<Rightarrow> (failure 500 (js ''Failed to post to LinkedIn''), [])
      | Some b \<Rightarrow>
          if \<not> truthy (userId b) \<or> \<not> truthy (post_text b)
          then (failure 400 (js ''Missing required fields: userId and text are required''), [])
          else if length (the (post_text b)) > 3000
          then (failure 400 (js ''Text exceeds LinkedIn limit of 3000 characters''), [])
          else if \<not> client_ok (env w (js ''VITE_SUPABASE_URL''))
                     (env w (js ''SUPABASE_SERVICE_ROLE_KEY''))
          then (failure 500 (js ''Failed to post to LinkedIn''), [])
          else (case select_single w (the (userId b)) (js ''linkedin'') of
            None \<Rightarrow>
              (failure 404 (js ''LinkedIn account not connected''),
               [SelectCredential (the (userId b)) (js ''linkedin'')])
          | Some credentials \<Rightarrow>
              if token_expired w credentials
              then ((failure 401 (js ''LinkedIn token expired'')) \<lparr>requiresReauth := True\<rparr>,
                    [SelectCredential (the (userId b)) (js ''linkedin'')])
              else if \<not> truthy (account_id credentials)
              then (failure 500 (js ''LinkedIn profile ID not found. Please reconnect account.''),
                    [SelectCredential (the (userId b)) (js ''linkedin'')])
              else
                (let profileId = the (account_id credentials);
                     uploaded =
                       (if truthy (imageUrl b) then upload_steps w profileId (the (imageUrl b))
                        else (None, []));
                     postPayload =
                       \<lparr>author = person_urn profileId,
                        shareCommentary = the (post_text b),
                        shareMediaCategory = (if fst uploaded = None then NONE else IMAGE),
                        media = fst uploaded\<rparr>
                 in (post_outcome (create_post w postPayload),
                     [SelectCredential (the (userId b)) (js ''linkedin'')] @ snd uploaded @
                     [CreatePost postPayload])))))"

section \<open>LinkedIn publish route of the development server (server/linkedin-api.js)\<close>

text \<open>
  The \<open>try\<close> block of the image upload in the server: the download is not checked
  for its status.
\<close>

definition server_upload_steps ::
  "World \<Rightarrow> jsstring \<Rightarrow> jsstring \<Rightarrow> jsstring option \<times> call list" where
  "server_upload_steps w owner url =
     (case register_upload w owner of
        NoReply \<Rightarrow> (None, [RegisterUpload owner])
      | Reply ok1 st1 registerData \<Rightarrow>
          if \<not> ok1 then (None, [RegisterUpload owner])
          else (case registerData of
                  None \<Rightarrow> (None, [RegisterUpload owner])
                | Some (uploadUrl, mediaAsset) \<Rightarrow>
                    (case fetch_image w url of
                       NoReply \<Rightarrow> (None, [RegisterUpload owner, FetchImage url])
                     | Reply ok2 st2 imageArrayBuffer \<Rightarrow>
                         (case imageArrayBuffer of
                            None \<Rightarrow> (None, [RegisterUpload owner, FetchImage url])
                          | Some bytes \<Rightarrow>
                              (case upload_image w uploadUrl bytes of
                                 NoReply \<Rightarrow>
                                   (None, [RegisterUpload owner, FetchImage url,
                                           UploadImage uploadUrl])
                               | Reply ok3 st3 u \<Rightarrow>
                                   if \<not> ok3
                                   then (None, [RegisterUpload owner, FetchImage url,
                                                UploadImage uploadUrl])
                                   else (Some mediaAsset,
                                         [RegisterUpload owner, FetchImage url,
                                          UploadImage uploadUrl]))))))"

text \<open>
  The route is registered for POST only, so \<open>req.method\<close> is not read. \<open>text\<close> is bound
  by \<open>const { userId, text, imageUrl } = req.body\<close>; the \<open>catch\<close> block of the image
  upload assigns to it, \<open>text = `${text}\n\nImage: ${imageUrl}`\<close>, which throws a
  TypeError (assignment to a constant) before \<open>mediaAsset = null\<close> runs; the outer
  \<open>catch\<close> answers 500.
\<close>

definition server_linkedin_post :: "World \<Rightarrow> Request \<Rightarrow> HttpResponse \<times> call list" where
  "server_linkedin_post w req =
     (case body req of
        None \<Rightarrow> (failure 500 (js ''Failed to post to LinkedIn''), [])
      | Some b \<Rightarrow>
          if \<not> truthy (userId b) \<or> \<not> truthy (post_text b)
          then (failure 400 (js ''Missing required fields: userId and text are required''), [])
          else if length (the (post_text b)) > 3000
          then (failure 400 (js ''Text exceeds LinkedIn limit of 3000 characters''), [])
          else if \<not> client_ok (env w (js ''SUPABASE_URL'')) (env w (js ''SUPABASE_KEY''))
          then (failure 500 (js ''Failed to post to LinkedIn''), [])
          else (case select_single w (the (userId b)) (js ''linkedin'') of
            None \<Rightarrow>
              (failure 404 (js ''LinkedIn account not connected''),
               [SelectCredential (the (userId b)) (js ''linkedin'')])
          | Some credentials \<Rightarrow>
              if token_expired w credentials
              then ((failure 401 (js ''LinkedIn token expired'')) \<lparr>requiresReauth := True\<rparr>,
                    [SelectCredential (the (userId b)) (js ''linkedin'')])
              else
                (let owner =
                       js ''urn:li:person:'' @
                       (case account_id credentials of None \<Rightarrow> js ''null'' | Some a \<Rightarrow> a);
                     uploaded =
                       (if truthy (imageUrl b) then server_upload_steps w owner (the (imageUrl b))
                        else (None, []))
                 in if truthy (imageUrl b) \<and> fst uploaded = None
                    then (failure 500 (js ''Failed to post to LinkedIn''),
                          [SelectCredential (the (userId b)) (js ''linkedin'')] @ snd uploaded)
                    else
                      (let postPayload =
                             \<lparr>author = owner,
                              shareCommentary = the (post_text b),
                              shareMediaCategory = (if truthy (fst uploaded) then IMAGE else NONE),
                              media = (if truthy (fst uploaded) then fst uploaded else None)\<rparr>
                       in (post_outcome (create_post w postPayload),
                           [SelectCredential (the (userId b)) (js ''linkedin'')] @ snd uploaded @
                           [CreatePost postPayload])))))"

section \<open>X (Twitter) publish handler (second handler of api/linkedin/post.ts) and server route (unnamed/part_001)\<close>

definition TWITTER_CHAR_LIMIT :: nat where
  "TWITTER_CHAR_LIMIT = 280"

definition URL_LENGTH :: nat where
  "URL_LENGTH = 23"

definition availableChars :: nat where
  "availableChars = TWITTER_CHAR_LIMIT - URL_LENGTH - 1"

text \<open>The text of the tweet before the image link is appended.\<close>

definition truncated_text :: "jsstring \<Rightarrow> jsstring" where
  "truncated_text tweetText =
     (if length tweetText > availableChars
      then take (availableChars - 3) tweetText @ js ''...''
      else tweetText)"

definition tweet_text :: "jsstring \<Rightarrow> jsstring option \<Rightarrow> jsstring" where
  "tweet_text t url =
     (if truthy url then truncated_text t @ js '' '' @ the url else t)"

text \<open>The answer to the reply of \<open>POST /2/tweets\<close>.\<close>

definition tweet_outcome :: "Body reply \<Rightarrow> HttpResponse" where
  "tweet_outcome r =
     (case r of
        NoReply \<Rightarrow> failure 500 (js ''Internal Server Error'')
      | Reply ok st b \<Rightarrow>
          (case body_json b of
             None \<Rightarrow> failure 500 (js ''Internal Server Error'')
           | Some data \<Rightarrow>
               if \<not> ok
               then (if st = 403
                     then failure 403
                            (js ''Permission Denied. Please disconnect & reconnect X (Twitter) to update permissions.'')
                     else failure st
                            (the (or_else (data (js ''detail''))
                                    (Some (js ''Failed to post tweet'')))))
               else \<lparr>status = 200, error = None, requiresReauth = False, success = True,
                     postId = None\<rparr>))"

definition twitter_post :: "World \<Rightarrow> Request \<Rightarrow> HttpResponse \<times> call list" where
  "twitter_post w req =
     (if http_method req \<noteq> js ''POST'' then (failure 405 (js ''Method not allowed''), [])
      else (case body req of
        None \<Rightarrow> (failure 500 (js ''Internal Server Error''), [])
      | Some b \<Rightarrow>
          if \<not> truthy (userId b) \<or> \<not> truthy (post_text b)
          then (failure 400 (js ''Missing required fields: userId and text''), [])
          else if \<not> client_ok
                     (or_else (env w (js ''SUPABASE_URL'')) (env w (js ''VITE_SUPABASE_URL'')))
                     (or_else (env w (js ''SUPABASE_SERVICE_ROLE_KEY''))
                        (or_else (env w (js ''SUPABASE_KEY''))
                           (env w (js ''VITE_SUPABASE_ANON_KEY''))))
          then (failure 500 (js ''Internal Server Error''), [])
          else (case select_single w (the (userId b)) (js ''x'') of
            None \<Rightarrow>
              (failure 404 (js ''Twitter account not connected. Please connect X in settings.''),
               [SelectCredential (the (userId b)) (js ''x'')])
          | Some credentials \<Rightarrow>
              (tweet_outcome (create_tweet w (tweet_text (the (post_text b)) (imageUrl b))),
               [SelectCredential (the (userId b)) (js ''x''),
                CreateTweet (tweet_text (the (post_text b)) (imageUrl b))]))))"

definition server_twitter_post :: "World \<Rightarrow> Request \<Rightarrow> HttpResponse \<times> call list" where
  "server_twitter_post w req =
     (case body req of
        None \<Rightarrow> (failure 500 (js ''Internal Server Error''), [])
      | Some b \<Rightarrow>
          if \<not> truthy (userId b) \<or> \<not> truthy (post_text b)
          then (failure 400 (js ''Missing required fields: userId and text''), [])
          else if \<not> client_ok (env w (js ''SUPABASE_URL'')) (env w (js ''SUPABASE_KEY''))
          then (failure 500 (js ''Internal Server Error''), [])
          else (case select_single w (the (userId b)) (js ''x'') of
            None \<Rightarrow>
              (failure 404 (js ''Twitter account not connected. Please connect X in settings.''),
               [SelectCredential (the (userId b)) (js ''x'')])
          | Some credentials \<Rightarrow>
              (tweet_outcome (create_tweet w (tweet_text (the (post_text b)) (imageUrl b))),
               [SelectCredential (the (userId b)) (js ''x''),
                CreateTweet (tweet_text (the (post_text b)) (imageUrl b))])))"

text \<open>A call to a provider's content-creation endpoint.\<close>

fun is_creation :: "call \<Rightarrow> bool" where
  "is_creation (CreatePost p) = True"
| "is_creation (CreateTweet t) = True"
| "is_creation c = False"

section \<open>Sample worlds and requests\<close>

definition demo_credential :: "jsstring \<Rightarrow> int option \<Rightarrow> Credential" where
  "demo_credential p e =
     \<lparr>user_id = js ''u1'', platform = p, access_token = js ''tok'', refresh_token = None,
      token_type = Some (js ''bearer''), expires_at = e, scopes = None,
      account_id = Some (js ''abc''), account_name = None, metadata = None,
      scope = None, profile_id = None, profile_data = None\<rparr>"

text \<open>
  A configured world at time \<open>t\<close> in which LinkedIn refuses to register an upload and
  both providers accept a post.
\<close>

definition demo_world :: "int \<Rightarrow> Credential list \<Rightarrow> World" where
  "demo_world t rows =
     \<lparr>now = t,
      env = [js ''SUPABASE_URL'' \<mapsto> js ''https://db'', js ''SUPABASE_KEY'' \<mapsto> js ''k'',
             js ''VITE_SUPABASE_URL'' \<mapsto> js ''https://db'',
             js ''SUPABASE_SERVICE_ROLE_KEY'' \<mapsto> js ''k''],
      db_online = True,
      social_credentials = rows,
      register_upload = (\<lambda>owner. Reply False 500 None),
      fetch_image = (\<lambda>url. NoReply),
      upload_image = (\<lambda>url bytes. NoReply),
      create_post =
        (\<lambda>p. Reply True 201 \<lparr>body_text = js ''{}'', body_json = Some [js ''id'' \<mapsto> js ''s1'']\<rparr>),
      create_tweet =
        (\<lambda>t. Reply True 201 \<lparr>body_text = js ''{}'', body_json = Some Map.empty\<rparr>)\<rparr>"

definition demo_request :: "jsstring \<Rightarrow> jsstring option \<Rightarrow> Request" where
  "demo_request t url =
     \<lparr>http_method = js ''POST'',
      body = Some \<lparr>userId = Some (js ''u1''), post_text = Some t, imageUrl = url\<rparr>\<rparr>"

section \<open>Writing a credential: upsert on (user_id, platform)\<close>

text \<open>
  The object handed to \<open>.upsert(_, { onConflict: 'user_id,platform' })\<close>. A column whose
  value is \<open>undefined\<close> is not sent (\<open>None\<close>); a column of a nullable type that is sent
  holds a value or \<open>null\<close>.
\<close>

record CredentialWrite =
  w_user_id :: jsstring
  w_platform :: jsstring
  w_access_token :: "jsstring option"
  w_refresh_token :: "jsstring option option"
  w_token_type :: "jsstring option option"
  w_expires_at :: "int option option"
  w_scopes :: "jsstring list option option"
  w_account_id :: "jsstring option option"
  w_account_name :: "jsstring option option"
  w_metadata :: "(jsstring \<times> jsstring option) list option option"
  w_scope :: "jsstring option option"
  w_profile_id :: "jsstring option option"
  w_profile_data :: "(jsstring \<times> jsstring option) list option option"

definition row_key :: "Credential \<Rightarrow> jsstring \<times> jsstring" where
  "row_key r = (user_id r, platform r)"

definition conflicts :: "CredentialWrite \<Rightarrow> Credential \<Rightarrow> bool" where
  "conflicts p r \<longleftrightarrow> user_id r = w_user_id p \<and> platform r = w_platform p"

text \<open>A column that is sent replaces the stored one; a column that is not sent stays.\<close>

definition sent :: "'a option \<Rightarrow> 'a \<Rightarrow> 'a" where
  "sent v old = (case v of None \<Rightarrow> old | Some x \<Rightarrow> x)"

text \<open>\<open>ON CONFLICT (user_id, platform) DO UPDATE SET\<close> the columns sent.\<close>

definition write_row :: "CredentialWrite \<Rightarrow> Credential \<Rightarrow> Credential" where
  "write_row p r =
     r\<lparr>access_token := sent (w_access_token p) (access_token r),
       refresh_token := sent (w_refresh_token p) (refresh_token r),
       token_type := sent (w_token_type p) (token_type r),
       expires_at := sent (w_expires_at p) (expires_at r),
       scopes := sent (w_scopes p) (scopes r),
       account_id := sent (w_account_id p) (account_id r),
       account_name := sent (w_account_name p) (account_name r),
       metadata := sent (w_metadata p) (metadata r),
       scope := sent (w_scope p) (scope r),
       profile_id := sent (w_profile_id p) (profile_id r),
       profile_data := sent (w_profile_data p) (profile_data r)\<rparr>"

text \<open>The inserted row: a column that is not sent takes its default.\<close>

definition insert_row :: "CredentialWrite \<Rightarrow> jsstring \<Rightarrow> Credential" where
  "insert_row p tok =
     \<lparr>user_id = w_user_id p, platform = w_platform p, access_token = tok,
      refresh_token = sent (w_refresh_token p) None,
      token_type = sent (w_token_type p) (Some (js ''bearer'')),
      expires_at = sent (w_expires_at p) None,
      scopes = sent (w_scopes p) None,
      account_id = sent (w_account_id p) None,
      account_name = sent (w_account_name p) None,
      metadata = sent (w_metadata p) None,
      scope = sent (w_scope p) None,
      profile_id = sent (w_profile_id p) None,
      profile_data = sent (w_profile_data p) None\<rparr>"

text \<open>
  The statement the database runs. \<open>access_token\<close> is \<open>NOT NULL\<close>: a write without
  it is refused. \<open>db_error\<close> stands for every other refusal (foreign key, policy,
  connection); a refused write changes nothing.
\<close>

definition upsert :: "CredentialWrite \<Rightarrow> Credential list \<Rightarrow> Credential list option" where
  "upsert p rows =
     (case w_access_token p of
        None \<Rightarrow> None
      | Some tok \<Rightarrow>
          Some (if list_ex (conflicts p) rows
                then map (\<lambda>r. if conflicts p r then write_row p r else r) rows
                else rows @ [insert_row p tok]))"

definition db_upsert ::
  "jsstring option \<Rightarrow> CredentialWrite \<Rightarrow> Credential list \<Rightarrow> Credential list option" where
  "db_upsert db_error p rows = (if db_error \<noteq> None then None else upsert p rows)"

text \<open>The stored row shows what a write sent.\<close>

definition shows_sent :: "'a option \<Rightarrow> 'a \<Rightarrow> bool" where
  "shows_sent v x = (case v of None \<Rightarrow> True | Some y \<Rightarrow> x = y)"

definition reflects :: "CredentialWrite \<Rightarrow> Credential \<Rightarrow> bool" where
  "reflects p r \<longleftrightarrow>
     user_id r = w_user_id p \<and> platform r = w_platform p \<and>
     w_access_token p = Some (access_token r) \<and>
     shows_sent (w_refresh_token p) (refresh_token r) \<and>
     shows_sent (w_token_type p) (token_type r) \<and>
     shows_sent (w_expires_at p) (expires_at r) \<and>
     shows_sent (w_scopes p) (scopes r) \<and>
     shows_sent (w_account_id p) (account_id r) \<and>
     shows_sent (w_account_name p) (account_name r) \<and>
     shows_sent (w_metadata p) (metadata r) \<and>
     shows_sent (w_scope p) (scope r) \<and>
     shows_sent (w_profile_id p) (profile_id r) \<and>
     shows_sent (w_profile_data p) (profile_data r)"

text \<open>The invariant: at most one row per user and platform.\<close>

definition one_row_per_key :: "Credential list \<Rightarrow> bool" where
  "one_row_per_key rows \<longleftrightarrow> distinct (map row_key rows)"

section \<open>Connect flows of the browser (components/SocialConnections.tsx)\<close>

record SocialPlatform =
  platform_id :: jsstring
  dbPlatform :: jsstring
  provider :: jsstring
  platform_scopes :: jsstring

definition platforms :: "SocialPlatform list" where
  "platforms =
     [\<lparr>platform_id = js ''gdrive'', dbPlatform = js ''google_drive'', provider = js ''google'',
       platform_scopes = js ''https://www.googleapis.com/auth/drive.file''\<rparr>,
      \<lparr>platform_id = js ''facebook'', dbPlatform = js ''facebook'', provider = js ''facebook'',
       platform_scopes = js ''pages_show_list,pages_manage_posts,pages_read_engagement''\<rparr>,
      \<lparr>platform_id = js ''instagram'', dbPlatform = js ''instagram'', provider = js ''facebook'',
       platform_scopes = js ''instagram_basic,instagram_content_publish,pages_show_list''\<rparr>,
      \<lparr>platform_id = js ''twitter'', dbPlatform = js ''x'', provider = js ''twitter'',
       platform_scopes = js ''tweet.read,tweet.write,users.read''\<rparr>,
      \<lparr>platform_id = js ''linkedin'', dbPlatform = js ''linkedin'', provider = js ''linkedin'',
       platform_scopes = js ''w_member_social,r_liteprofile''\<rparr>]"

text \<open>
  The OAuth session handed to \<open>handleAuthCallback\<close>. \<open>session_provider\<close> is
  \<open>session.user.app_metadata.provider\<close>: \<open>None\<close> when reading it throws.
\<close>

record Session =
  provider_token :: "jsstring option"
  provider_refresh_token :: "jsstring option"
  expires_in :: "int option"
  session_provider :: "jsstring option option"

text \<open>What a flow of the browser changes: \<open>localStorage\<close> and the table.\<close>

record Store =
  storage :: "jsstring \<rightharpoonup> jsstring"
  credentials :: "Credential list"

text \<open>\<open>n ? now + n * 1000 : null\<close>.\<close>

definition expiry :: "int \<Rightarrow> int option \<Rightarrow> int option" where
  "expiry t n = (case n of None \<Rightarrow> None | Some k \<Rightarrow> if k = 0 then None else Some (t + k * 1000))"

text \<open>The object \<open>credentialData\<close> of \<open>handleAuthCallback\<close>.\<close>

definition authCredentialData ::
  "jsstring \<Rightarrow> int \<Rightarrow> Session \<Rightarrow> SocialPlatform \<Rightarrow> CredentialWrite" where
  "authCredentialData uid t session platformConfig =
     \<lparr>w_user_id = uid,
      w_platform = dbPlatform platformConfig,
      w_access_token = provider_token session,
      w_refresh_token =
        Some (if truthy (provider_refresh_token session)
              then provider_refresh_token session else None),
      w_token_type = Some (Some (js ''bearer'')),
      w_expires_at = Some (expiry t (expires_in session)),
      w_scopes = Some (Some (split_on comma (platform_scopes platformConfig))),
      w_account_id = None, w_account_name = None, w_metadata = None,
      w_scope = None, w_profile_id = None, w_profile_data = None\<rparr>"

text \<open>The end of both callbacks of the browser: the write, then the marker is removed.\<close>

definition save_credential :: "jsstring option \<Rightarrow> CredentialWrite \<Rightarrow> Store \<Rightarrow> Store" where
  "save_credential db_error credentialData st =
     (case db_upsert db_error credentialData (credentials st) of
        None \<Rightarrow> st
      | Some rows \<Rightarrow>
          \<lparr>storage = (storage st)(js ''connecting_platform'' := None), credentials = rows\<rparr>)"

definition handleAuthCallback ::
  "jsstring option \<Rightarrow> int \<Rightarrow> jsstring option \<Rightarrow> Session \<Rightarrow> Store \<Rightarrow> Store" where
  "handleAuthCallback user t db_error session st =
     (case user of
        None \<Rightarrow> st
      | Some uid \<Rightarrow>
          if \<not> truthy (provider_token session) then st
          else (case session_provider session of
            None \<Rightarrow> st
          | Some prov \<Rightarrow>
              (let intendedPlatform = storage st (js ''connecting_platform'');
                   platformConfig =
                     (case find (\<lambda>p. Some (platform_id p) = intendedPlatform) platforms of
                        Some p \<Rightarrow> Some p
                      | None \<Rightarrow> find (\<lambda>p. Some (provider p) = prov) platforms)
               in case platformConfig of
                    None \<Rightarrow> st
                  | Some cfg \<Rightarrow>
                      save_credential db_error (authCredentialData uid t session cfg) st)))"

text \<open>The token data handed to \<open>handleTwitterCallback\<close>.\<close>

record TwitterData =
  tw_access_token :: "jsstring option"
  tw_refresh_token :: "jsstring option"
  tw_token_type :: "jsstring option"
  tw_expires_in :: "int option"
  tw_scope :: "jsstring option"

text \<open>The object \<open>credentialData\<close> of \<open>handleTwitterCallback\<close>.\<close>

definition twitterCredentialData :: "jsstring \<Rightarrow> int \<Rightarrow> TwitterData \<Rightarrow> CredentialWrite" where
  "twitterCredentialData uid t d =
     \<lparr>w_user_id = uid,
      w_platform = js ''x'',
      w_access_token = tw_access_token d,
      w_refresh_token = Some (if truthy (tw_refresh_token d) then tw_refresh_token d else None),
      w_token_type =
        Some (if truthy (tw_token_type d) then tw_token_type d else Some (js ''bearer'')),
      w_expires_at = Some (expiry t (tw_expires_in d)),
      w_scopes =
        Some (Some (if truthy (tw_scope d) then split_on space (the (tw_scope d)) else [])),
      w_account_id = None, w_account_name = None, w_metadata = None,
      w_scope = None, w_profile_id = None, w_profile_data = None\<rparr>"

definition handleTwitterCallback ::
  "jsstring option \<Rightarrow> int \<Rightarrow> jsstring option \<Rightarrow> TwitterData \<Rightarrow> Store \<Rightarrow> Store" where
  "handleTwitterCallback user t db_error d st =
     (case user of
        None \<Rightarrow> st
      | Some uid \<Rightarrow> save_credential db_error (twitterCredentialData uid t d) st)"

section \<open>LinkedIn callback of the servers\<close>

text \<open>
  \<open>server_linkedin_callback\<close> is the route \<open>/api/linkedin/callback\<close> of
  server/linkedin-api.js; \<open>linkedin_callback\<close> is the callback handler found in
  api/linkedin/disconnect.ts.
\<close>

record CallbackQuery =
  q_code :: "jsstring option"
  q_state :: "jsstring option"
  q_error :: "jsstring option"

record TokenData =
  td_access_token :: "jsstring option"
  td_expires_in :: "int option"
  td_scope :: "jsstring option"

record ProfileData =
  sub :: "jsstring option"
  profile_name :: "jsstring option"
  profile_email :: "jsstring option"
  picture :: "jsstring option"

text \<open>
  The outside of a callback: the clock, the environment, the user id that decoding the
  state gives (\<open>None\<close> when \<open>JSON.parse\<close> throws), the token endpoint, the profile
  endpoint, and a refusal of the database if any.
\<close>

record OAuthWorld =
  oauth_now :: int
  oauth_env :: "jsstring \<rightharpoonup> jsstring"
  decode_state :: "jsstring \<Rightarrow> jsstring option option"
  exchange_code :: "jsstring \<Rightarrow> TokenData option reply"
  userinfo :: "jsstring option \<Rightarrow> ProfileData option reply"
  oauth_db_error :: "jsstring option"

datatype callback_answer =
    RedirectSuccess
  | RedirectError jsstring
  | BadRequest jsstring
  | ServerError jsstring

text \<open>The objects that the two LinkedIn callbacks hand to \<open>upsert\<close>.\<close>

definition server_credential ::
  "OAuthWorld \<Rightarrow> jsstring \<Rightarrow> TokenData \<Rightarrow> ProfileData \<Rightarrow> int \<Rightarrow> CredentialWrite" where
  "server_credential w uid td pd n =
     \<lparr>w_user_id = uid,
      w_platform = js ''linkedin'',
      w_access_token = td_access_token td,
      w_refresh_token = None,
      w_token_type = Some (Some (js ''bearer'')),
      w_expires_at = Some (Some (oauth_now w + n * 1000)),
      w_scopes =
        Some (Some (if truthy (td_scope td) then split_on space (the (td_scope td)) else [])),
      w_account_id = Some (sub pd),
      w_account_name = (case profile_name pd of None \<Rightarrow> None | Some v \<Rightarrow> Some (Some v)),
      w_metadata =
        Some (Some [(js ''email'', profile_email pd), (js ''picture'', picture pd),
                    (js ''linkedinId'', sub pd)]),
      w_scope = None, w_profile_id = None, w_profile_data = None\<rparr>"

definition callback_credential ::
  "OAuthWorld \<Rightarrow> jsstring \<Rightarrow> TokenData \<Rightarrow> ProfileData \<Rightarrow> int \<Rightarrow> CredentialWrite" where
  "callback_credential w uid td pd n =
     \<lparr>w_user_id = uid,
      w_platform = js ''linkedin'',
      w_access_token = td_access_token td,
      w_refresh_token = Some None,
      w_token_type = None,
      w_expires_at = Some (Some (oauth_now w + n * 1000)),
      w_scopes = None,
      w_account_id = None, w_account_name = None, w_metadata = None,
      w_scope = (case td_scope td of None \<Rightarrow> None | Some v \<Rightarrow> Some (Some v)),
      w_profile_id = (case sub pd of None \<Rightarrow> None | Some v \<Rightarrow> Some (Some v)),
      w_profile_data =
        Some (Some [(js ''name'', profile_name pd), (js ''email'', profile_email pd),
                    (js ''picture'', picture pd), (js ''linkedinId'', sub pd)])\<rparr>"

definition server_linkedin_callback ::
  "OAuthWorld \<Rightarrow> CallbackQuery \<Rightarrow> Credential list \<Rightarrow> callback_answer \<times> Credential list" where
  "server_linkedin_callback w q rows =
     (if truthy (q_error q) then (RedirectError (js ''linkedin_auth_failed''), rows)
      else if \<not> truthy (q_code q) \<or> \<not> truthy (q_state q)
      then (BadRequest (js ''Missing code or state parameter''), rows)
      else (case decode_state w (the (q_state q)) of
        None \<Rightarrow> (BadRequest (js ''Invalid state parameter''), rows)
      | Some stateUserId \<Rightarrow>
          if \<not> truthy stateUserId then (BadRequest (js ''Invalid state: missing userId''), rows)
          else if \<not> truthy (oauth_env w (js ''LINKEDIN_CLIENT_ID'')) \<or>
                  \<not> truthy (oauth_env w (js ''LINKEDIN_CLIENT_SECRET'')) \<or>
                  \<not> truthy (or_else (oauth_env w (js ''LINKEDIN_REDIRECT_URI''))
                              (Some (js ''http://localhost:3000/api/linkedin/callback'')))
          then (ServerError (js ''LinkedIn OAuth not configured''), rows)
          else (case exchange_code w (the (q_code q)) of
            NoReply \<Rightarrow> (RedirectError (js ''unexpected_error''), rows)
          | Reply ok1 st1 tokenData \<Rightarrow>
              if \<not> ok1 then (RedirectError (js ''token_exchange_failed''), rows)
              else (case tokenData of
                None \<Rightarrow> (RedirectError (js ''unexpected_error''), rows)
              | Some td \<Rightarrow>
                  (case userinfo w (td_access_token td) of
                     NoReply \<Rightarrow> (RedirectError (js ''unexpected_error''), rows)
                   | Reply ok2 st2 profileData \<Rightarrow>
                       if \<not> ok2 then (RedirectError (js ''profile_fetch_failed''), rows)
                       else (case profileData of
                         None \<Rightarrow> (RedirectError (js ''unexpected_error''), rows)
                       | Some pd \<Rightarrow>
                           if \<not> truthy (sub pd)
                           then (RedirectError (js ''profile_id_missing''), rows)
                           else (case td_expires_in td of
                             None \<Rightarrow> (RedirectError (js ''unexpected_error''), rows)
                           | Some n \<Rightarrow>
                               if \<not> truthy (oauth_env w (js ''SUPABASE_URL'')) \<or>
                                  \<not> truthy (oauth_env w (js ''SUPABASE_KEY''))
                               then (RedirectError (js ''database_config_error''), rows)
                               else
                                 (case db_upsert (oauth_db_error w)
                                         (server_credential w (the stateUserId) td pd n) rows of
                                    None \<Rightarrow> (RedirectError (js ''database_error''), rows)
                                  | Some rows' \<Rightarrow> (RedirectSuccess, rows')))))))))"

definition linkedin_callback ::
  "OAuthWorld \<Rightarrow> CallbackQuery \<Rightarrow> Credential list \<Rightarrow> callback_answer \<times> Credential list" where
  "linkedin_callback w q rows =
     (if truthy (q_error q) then (RedirectError (js ''linkedin_auth_failed''), rows)
      else if \<not> truthy (q_code q) \<or> \<not> truthy (q_state q)
      then (BadRequest (js ''Missing code or state parameter''), rows)
      else (case decode_state w (the (q_state q)) of
        None \<Rightarrow> (BadRequest (js ''Invalid state parameter''), rows)
      | Some stateUserId \<Rightarrow>
          if \<not> truthy stateUserId then (BadRequest (js ''Invalid state: missing userId''), rows)
          else if \<not> truthy (oauth_env w (js ''LINKEDIN_CLIENT_ID'')) \<or>
                  \<not> truthy (oauth_env w (js ''LINKEDIN_CLIENT_SECRET'')) \<or>
                  \<not> truthy (oauth_env w (js ''LINKEDIN_REDIRECT_URI''))
          then (ServerError (js ''LinkedIn OAuth not configured''), rows)
          else (case exchange_code w (the (q_code q)) of
            NoReply \<Rightarrow> (RedirectError (js ''unexpected_error''), rows)
          | Reply ok1 st1 tokenData \<Rightarrow>
              if \<not> ok1 then (RedirectError (js ''token_exchange_failed''), rows)
              else (case tokenData of
                None \<Rightarrow> (RedirectError (js ''unexpected_error''), rows)
              | Some td \<Rightarrow>
                  (case userinfo w (td_access_token td) of
                     NoReply \<Rightarrow> (RedirectError (js ''unexpected_error''), rows)
                   | Reply ok2 st2 profileData \<Rightarrow>
                       if \<not> ok2 then (RedirectError (js ''profile_fetch_failed''), rows)
                       else (case profileData of
                         None \<Rightarrow> (RedirectError (js ''unexpected_error''), rows)
                       | Some pd \<Rightarrow>
                           (case td_expires_in td of
                              None \<Rightarrow> (RedirectError (js ''unexpected_error''), rows)
                            | Some n \<Rightarrow>
                                if \<not> client_ok
                                       (or_else (oauth_env w (js ''SUPABASE_URL''))
                                          (oauth_env w (js ''VITE_SUPABASE_URL'')))
                                       (or_else (oauth_env w (js ''SUPABASE_SERVICE_ROLE_KEY''))
                                          (or_else (oauth_env w (js ''SUPABASE_KEY''))
                                             (oauth_env w (js ''VITE_SUPABASE_ANON_KEY''))))
                                then (RedirectError (js ''unexpected_error''), rows)
                                else
                                  (case db_upsert (oauth_db_error w)
                                         (callback_credential w (the stateUserId) td pd n) rows of
                                     None \<Rightarrow> (RedirectError (js ''database_error''), rows)
                                   | Some rows' \<Rightarrow> (RedirectSuccess, rows')))))))))"

text \<open>A sample write for user \<open>u1\<close> on platform \<open>x\<close>.\<close>

definition demo_write :: "jsstring \<Rightarrow> int option \<Rightarrow> CredentialWrite" where
  "demo_write tok e =
     \<lparr>w_user_id = js ''u1'', w_platform = js ''x'', w_access_token = Some tok,
      w_refresh_token = Some None, w_token_type = Some (Some (js ''bearer'')),
      w_expires_at = Some e, w_scopes = Some (Some []),
      w_account_id = None, w_account_name = None, w_metadata = None,
      w_scope = None, w_profile_id = None, w_profile_data = None\<rparr>"

section \<open>OAuth results left in localStorage (components/SocialConnections.tsx)\<close>

text \<open>
  \<open>parseInt(s)\<close> without a radix: leading white space, a sign, \<open>0x\<close> for base 16,
  then the longest run of digits; \<open>None\<close> is \<open>NaN\<close>. The result is an integer; the
  comparison below is made on integers that a JavaScript number holds exactly.
\<close>

definition digit_value :: "nat \<Rightarrow> nat option" where
  "digit_value c =
     (if 48 \<le> c \<and> c \<le> 57 then Some (c - 48)
      else if 97 \<le> c \<and> c \<le> 122 then Some (c - 87)
      else if 65 \<le> c \<and> c \<le> 90 then Some (c - 55)
      else None)"

definition is_digit :: "nat \<Rightarrow> nat \<Rightarrow> bool" where
  "is_digit radix c = (case digit_value c of None \<Rightarrow> False | Some d \<Rightarrow> d < radix)"

definition digits_value :: "nat \<Rightarrow> jsstring \<Rightarrow> int" where
  "digits_value radix ds = foldl (\<lambda>acc c. acc * int radix + int (the (digit_value c))) 0 ds"

definition parseInt :: "jsstring \<Rightarrow> int option" where
  "parseInt s =
     (let s1 = dropWhile is_ws s;
          negative = (s1 \<noteq> [] \<and> hd s1 = 45);
          s2 = (if s1 \<noteq> [] \<and> (hd s1 = 45 \<or> hd s1 = 43) then tl s1 else s1);
          hex = (take 2 s2 = js ''0x'' \<or> take 2 s2 = js ''0X'');
          radix = (if hex then 16 else 10);
          s3 = (if hex then drop 2 s2 else s2);
          ds = takeWhile (is_digit radix) s3
      in if ds = [] then None
         else Some (if negative then - digits_value radix ds else digits_value radix ds))"

text \<open>
  \<open>checkLocalStorageAuth\<close>. \<open>parse_session\<close> is \<open>JSON.parse\<close> on the stored session
  (\<open>None\<close> when it throws). The result is the store and the sessions handed to
  \<open>handleAuthCallback\<close>.
\<close>

definition clear_flags :: "Store \<Rightarrow> Store" where
  "clear_flags st =
     st\<lparr>storage := (storage st)(js ''oauth_success'' := None, js ''oauth_session'' := None,
                                 js ''oauth_timestamp'' := None)\<rparr>"

definition checkLocalStorageAuth ::
  "(jsstring \<Rightarrow> Session option) \<Rightarrow> jsstring option \<Rightarrow> int \<Rightarrow> jsstring option \<Rightarrow> Store \<Rightarrow>
   Store \<times> Session list" where
  "checkLocalStorageAuth parse_session user t db_error st =
     (let oauthSuccess = storage st (js ''oauth_success'');
          oauthSession = storage st (js ''oauth_session'');
          oauthTimestamp = storage st (js ''oauth_timestamp'')
      in if oauthSuccess = Some (js ''true'') \<and> truthy oauthSession
         then
           (let timestamp = parseInt (the (or_else oauthTimestamp (Some (js ''0''))))
            in if (case timestamp of None \<Rightarrow> False | Some ts \<Rightarrow> t - ts < 30000)
               then (case parse_session (the oauthSession) of
                       None \<Rightarrow> (clear_flags st, [])
                     | Some session \<Rightarrow>
                         (clear_flags (handleAuthCallback user t db_error session st), [session]))
               else (clear_flags st, []))
         else (st, []))"

text \<open>
  An OAuth result is found when the success flag is \<open>true\<close> and a session is stored. Its
  age is the clock minus the stored timestamp (\<open>0\<close> when none is stored), when that is a
  number.
\<close>

definition result_found :: "Store \<Rightarrow> bool" where
  "result_found st \<longleftrightarrow>
     storage st (js ''oauth_success'') = Some (js ''true'') \<and>
     truthy (storage st (js ''oauth_session''))"

definition result_age :: "int \<Rightarrow> Store \<Rightarrow> int option" where
  "result_age t st =
     map_option (\<lambda>ts. t - ts)
       (parseInt (case storage st (js ''oauth_timestamp'') of
                    None \<Rightarrow> js ''0''
                  | Some s \<Rightarrow> if s = [] then js ''0'' else s))"

definition flags_cleared :: "Store \<Rightarrow> bool" where
  "flags_cleared st \<longleftrightarrow>
     storage st (js ''oauth_success'') = None \<and> storage st (js ''oauth_session'') = None \<and>
     storage st (js ''oauth_timestamp'') = None"

text \<open>A store with an OAuth result stamped \<open>stamp\<close>.\<close>

definition demo_store :: "jsstring \<Rightarrow> Store" where
  "demo_store stamp =
     \<lparr>storage = [js ''oauth_success'' \<mapsto> js ''true'', js ''oauth_session'' \<mapsto> js ''{}'',
                 js ''oauth_timestamp'' \<mapsto> stamp, js ''connecting_platform'' \<mapsto> js ''facebook''],
      credentials = []\<rparr>"

definition demo_session :: Session where
  "demo_session =
     \<lparr>provider_token = Some (js ''tok''), provider_refresh_token = None, expires_in = Some 3600,
      session_provider = Some (Some (js ''facebook''))\<rparr>"

section \<open>JSON.parse\<close>

text \<open>
  The value \<open>JSON.parse\<close> builds, with numbers and strings kept as they are written.
  \<open>None\<close> is a SyntaxError.
\<close>

datatype json =
    JNull
  | JBool bool
  | JNumber jsstring
  | JString jsstring
  | JArray "json list"
  | JObject "(jsstring \<times> json) list"

definition json_ws :: "nat \<Rightarrow> bool" where
  "json_ws c \<longleftrightarrow> c = 32 \<or> c = 9 \<or> c = 10 \<or> c = 13"

definition skip_ws :: "jsstring \<Rightarrow> jsstring" where
  "skip_ws s = dropWhile json_ws s"

definition dec_digit :: "nat \<Rightarrow> bool" where
  "dec_digit c \<longleftrightarrow> 48 \<le> c \<and> c \<le> 57"

definition hex_digit :: "nat \<Rightarrow> bool" where
  "hex_digit c \<longleftrightarrow> dec_digit c \<or> (97 \<le> c \<and> c \<le> 102) \<or> (65 \<le> c \<and> c \<le> 70)"

text \<open>The characters of a string after its opening quote, and what follows the closing one.\<close>

fun scan_string :: "jsstring \<Rightarrow> (jsstring \<times> jsstring) option" where
  "scan_string [] = None"
| "scan_string (c # cs) =
     (if c = 34 then Some ([], cs)
      else if c < 32 then None
      else if c = 92 then
        (case cs of
           [] \<Rightarrow> None
         | e # r \<Rightarrow>
             if e = 34 \<or> e = 92 \<or> e = 47 \<or> e = 98 \<or> e = 102 \<or> e = 110 \<or> e = 114 \<or> e = 116
             then map_option (\<lambda>(s, rest). (c # e # s, rest)) (scan_string r)
             else if e = 117 \<and> 4 \<le> length r \<and> list_all hex_digit (take 4 r)
             then map_option (\<lambda>(s, rest). (c # e # take 4 r @ s, rest)) (scan_string (drop 4 r))
             else None)
      else map_option (\<lambda>(s, rest). (c # s, rest)) (scan_string cs))"

text \<open>A number: sign, integer part, fraction, exponent.\<close>

definition scan_int :: "jsstring \<Rightarrow> (jsstring \<times> jsstring) option" where
  "scan_int s =
     (case s of
        [] \<Rightarrow> None
      | c # cs \<Rightarrow>
          if c = 48 then Some ([c], cs)
          else if dec_digit c then Some (takeWhile dec_digit s, dropWhile dec_digit s)
          else None)"

definition scan_frac :: "jsstring \<Rightarrow> (jsstring \<times> jsstring) option" where
  "scan_frac s =
     (if s \<noteq> [] \<and> hd s = 46
      then (if takeWhile dec_digit (tl s) = [] then None
            else Some (46 # takeWhile dec_digit (tl s), dropWhile dec_digit (tl s)))
      else Some ([], s))"

definition scan_exp :: "jsstring \<Rightarrow> (jsstring \<times> jsstring) option" where
  "scan_exp s =
     (if s \<noteq> [] \<and> (hd s = 101 \<or> hd s = 69)
      then (let signed = (tl s \<noteq> [] \<and> (hd (tl s) = 43 \<or> hd (tl s) = 45));
                r = (if signed then tl (tl s) else tl s)
            in if takeWhile dec_digit r = [] then None
               else Some (take (length s - length (dropWhile dec_digit r)) s,
                          dropWhile dec_digit r))
      else Some ([], s))"

definition scan_number :: "jsstring \<Rightarrow> (jsstring \<times> jsstring) option" where
  "scan_number s =
     (let negative = (s \<noteq> [] \<and> hd s = 45);
          s1 = (if negative then tl s else s)
      in case scan_int s1 of
           None \<Rightarrow> None
         | Some (i, r1) \<Rightarrow>
             (case scan_frac r1 of
                None \<Rightarrow> None
              | Some (f, r2) \<Rightarrow>
                  (case scan_exp r2 of
                     None \<Rightarrow> None
                   | Some (e, r3) \<Rightarrow> Some ((if negative then [45] else []) @ i @ f @ e, r3))))"

definition starts_with :: "jsstring \<Rightarrow> jsstring \<Rightarrow> bool" where
  "starts_with p s \<longleftrightarrow> take (length p) s = p"

text \<open>
  A value, the rest of an array after \<open>[\<close>, and the rest of an object after \<open>{\<close>. The
  first argument bounds the number of nested calls; each call reads at least one
  character, so the length of the text is enough.
\<close>

fun json_value :: "nat \<Rightarrow> jsstring \<Rightarrow> (json \<times> jsstring) option"
  and json_elements :: "nat \<Rightarrow> json list \<Rightarrow> jsstring \<Rightarrow> (json \<times> jsstring) option"
  and json_members :: "nat \<Rightarrow> (jsstring \<times> json) list \<Rightarrow> jsstring \<Rightarrow> (json \<times> jsstring) option"
  where
  "json_value 0 s = None"
| "json_value (Suc n) s =
     (if s = [] then None
      else if hd s = 34 then map_option (\<lambda>(str, rest). (JString str, rest)) (scan_string (tl s))
      else if hd s = 91 then
        (if skip_ws (tl s) \<noteq> [] \<and> hd (skip_ws (tl s)) = 93
         then Some (JArray [], tl (skip_ws (tl s)))
         else json_elements n [] (skip_ws (tl s)))
      else if hd s = 123 then
        (if skip_ws (tl s) \<noteq> [] \<and> hd (skip_ws (tl s)) = 125
         then Some (JObject [], tl (skip_ws (tl s)))
         else json_members n [] (skip_ws (tl s)))
      else if starts_with (js ''true'') s then Some (JBool True, drop 4 s)
      else if starts_with (js ''false'') s then Some (JBool False, drop 5 s)
      else if starts_with (js ''null'') s then Some (JNull, drop 4 s)
      else map_option (\<lambda>(num, rest). (JNumber num, rest)) (scan_number s))"
| "json_elements 0 acc s = None"
| "json_elements (Suc n) acc s =
     (case json_value n s of
        None \<Rightarrow> None
      | Some (v, r) \<Rightarrow>
          if skip_ws r \<noteq> [] \<and> hd (skip_ws r) = 44
          then json_elements n (acc @ [v]) (skip_ws (tl (skip_ws r)))
          else if skip_ws r \<noteq> [] \<and> hd (skip_ws r) = 93
          then Some (JArray (acc @ [v]), tl (skip_ws r))
          else None)"
| "json_members 0 acc s = None"
| "json_members (Suc n) acc s =
     (if s \<noteq> [] \<and> hd s = 34
      then (case scan_string (tl s) of
              None \<Rightarrow> None
            | Some (k, r) \<Rightarrow>
                if skip_ws r \<noteq> [] \<and> hd (skip_ws r) = 58
                then (case json_value n (skip_ws (tl (skip_ws r))) of
                        None \<Rightarrow> None
                      | Some (v, r2) \<Rightarrow>
                          if skip_ws r2 \<noteq> [] \<and> hd (skip_ws r2) = 44
                          then json_members n (acc @ [(k, v)]) (skip_ws (tl (skip_ws r2)))
                          else if skip_ws r2 \<noteq> [] \<and> hd (skip_ws r2) = 125
                          then Some (JObject (acc @ [(k, v)]), tl (skip_ws r2))
                          else None)
                else None)
      else None)"

definition json_parse :: "jsstring \<Rightarrow> json option" where
  "json_parse s =
     (case json_value (Suc (length s)) (skip_ws s) of
        None \<Rightarrow> None
      | Some (v, r) \<Rightarrow> if skip_ws r = [] then Some v else None)"

section \<open>Content generation driver (unnamed/part_007)\<close>

text \<open>\<open>s.replace(/p/g, "")\<close> for a literal pattern, with the \<open>i\<close> flag when \<open>eq\<close> ignores case.\<close>

definition ascii_upper :: "nat \<Rightarrow> nat" where
  "ascii_upper c = (if 97 \<le> c \<and> c \<le> 122 then c - 32 else c)"

definition eq_ci :: "nat \<Rightarrow> nat \<Rightarrow> bool" where
  "eq_ci a b \<longleftrightarrow> ascii_upper a = ascii_upper b"

function remove_all :: "(nat \<Rightarrow> nat \<Rightarrow> bool) \<Rightarrow> jsstring \<Rightarrow> jsstring \<Rightarrow> jsstring" where
  "remove_all eq p [] = []"
| "remove_all eq p (x # xs) =
     (if p \<noteq> [] \<and> length p \<le> length (x # xs) \<and> list_all2 eq p (take (length p) (x # xs))
      then remove_all eq p (drop (length p) (x # xs))
      else x # remove_all eq p xs)"
  by pat_completeness auto
termination
  by (relation "measure (\<lambda>(eq, p, s). length s)") auto

definition clean :: "jsstring \<Rightarrow> jsstring" where
  "clean rawText =
     trim (remove_all (=) (js ''```'') (remove_all eq_ci (js ''```json'') rawText))"

text \<open>
  The outside of the driver: the two environments the API key is looked up in, and the
  AI endpoint, which throws (\<open>None\<close>) or answers with a text that may be undefined.
\<close>

record GenWorld =
  meta_env :: "jsstring \<rightharpoonup> jsstring"
  process_env :: "jsstring \<rightharpoonup> jsstring"
  generateContent :: "jsstring \<Rightarrow> jsstring option option"

datatype gen_error = MissingApiKey | EndpointError | SyntaxError

definition getGeminiApiKey :: "GenWorld \<Rightarrow> gen_error + jsstring" where
  "getGeminiApiKey w =
     (let key =
            or_else
              (or_else
                 (or_else (meta_env w (js ''VITE_GEMINI_API_KEY''))
                    (meta_env w (js ''GEMINI_API_KEY'')))
                 (process_env w (js ''GEMINI_API_KEY'')))
              (process_env w (js ''API_KEY''))
      in if \<not> truthy key \<or> key = Some (js ''undefined'') then Inl MissingApiKey
         else Inr (the key))"

text \<open>
  \<open>geminiClient\<close> is the module's cached client, \<open>None\<close> before the first use; a
  client stands for the key it was made with.
\<close>

definition getGeminiClient :: "GenWorld \<Rightarrow> jsstring option \<Rightarrow> gen_error + jsstring" where
  "getGeminiClient w geminiClient =
     (case geminiClient of
        Some client \<Rightarrow> Inr client
      | None \<Rightarrow> getGeminiApiKey w)"

text \<open>
  \<open>generateAllGeminiContent\<close>: the result (an error when the call throws), the cached
  client afterwards, and the prompts sent to the endpoint. \<open>build_prompt\<close> is the
  template that turns the campaign into the prompt.
\<close>

definition generateAllGeminiContent ::
  "('c \<Rightarrow> jsstring) \<Rightarrow> GenWorld \<Rightarrow> jsstring option \<Rightarrow> 'c \<Rightarrow>
   (gen_error + json) \<times> jsstring option \<times> jsstring list" where
  "generateAllGeminiContent build_prompt w geminiClient campaign =
     (case getGeminiClient w geminiClient of
        Inl e \<Rightarrow> (Inl e, geminiClient, [])
      | Inr ai \<Rightarrow>
          (let prompt = build_prompt campaign
           in case generateContent w prompt of
                None \<Rightarrow> (Inl EndpointError, Some ai, [prompt])
              | Some text \<Rightarrow>
                  (let rawText = (if truthy text then the text else []);
                       cleaned = clean rawText
                   in case json_parse cleaned of
                        None \<Rightarrow> (Inl SyntaxError, Some ai, [prompt])
                      | Some parsed \<Rightarrow> (Inr parsed, Some ai, [prompt]))))"

text \<open>A world with an API key when \<open>k\<close> is given, whose endpoint answers \<open>t\<close>.\<close>

definition demo_gen :: "jsstring option \<Rightarrow> jsstring \<Rightarrow> GenWorld" where
  "demo_gen k t =
     \<lparr>meta_env = (\<lambda>n. if n = js ''VITE_GEMINI_API_KEY'' then k else None),
      process_env = Map.empty,
      generateContent = (\<lambda>p. Some (Some t))\<rparr>"

definition fenced_json :: jsstring where
  "fenced_json = js ''```json'' @ [10] @ js ''{\"content\":[]}'' @ [10] @ js ''```''"

section \<open>Saving generated items with their images (unnamed/part_004, components/ResultsEdit.tsx)\<close>
























section \<open>Facts about splitting\<close>

lemma split_on_nonempty: "split_on c s \<noteq> []"
  by (induction s) (auto split: list.splits)

lemma split_on_no_sep: "c \<notin> set s \<Longrightarrow> split_on c s = [s]"
  by (induction s) auto

lemma split_on_append: "c \<notin> set a \<Longrightarrow> split_on c (a @ c # b) = a # split_on c b"
  by (induction a) auto

lemma hd_split_on: "hd (split_on c s) = takeWhile (\<lambda>x. x \<noteq> c) s"
  by (induction s) (auto simp: split_on_nonempty split: list.splits)

lemma split_on_dropWhile:
  "split_on c s = takeWhile (\<lambda>x. x \<noteq> c) s #
     (case dropWhile (\<lambda>x. x \<noteq> c) s of [] \<Rightarrow> [] | _ # r \<Rightarrow> split_on c r)"
  by (induction s) (auto split: list.splits)

section \<open>Password verification\<close>

lemma colon_notin_to_hex: "colon \<notin> set (to_hex bs)"
  by (induction bs) (auto simp: to_hex_def byte_hex_def hexdigit_def colon_def)

lemma to_hex_empty: "to_hex bs = [] \<longleftrightarrow> bs = []"
  by (cases bs) (auto simp: to_hex_def byte_hex_def)

lemma verify_roundtrip:
  assumes "salt \<noteq> []" and "digest (encode (to_hex (digest (encode p)) @ to_hex salt)) \<noteq> []"
  shows "verifyPassword encode digest p (hashPassword encode digest salt p)"
  using assms
  by (simp add: verifyPassword_def hashPassword_def Let_def split_on_append split_on_no_sep
      colon_notin_to_hex element_def truthy_def to_hex_empty)

lemma split_on_two:
  "\<exists>rest. split_on colon s = [stored_salt s] \<and> stored_hash s = [] \<or>
          split_on colon s = stored_salt s # stored_hash s # rest"
proof (cases "dropWhile (\<lambda>x. x \<noteq> colon) s")
  case Nil
  have "split_on colon s = [takeWhile (\<lambda>x. x \<noteq> colon) s]"
    using split_on_dropWhile [of colon s] unfolding Nil by simp
  moreover have "stored_hash s = []"
    unfolding stored_hash_def Nil by simp
  ultimately show ?thesis
    by (simp add: stored_salt_def)
next
  case (Cons a r)
  have "split_on colon s = takeWhile (\<lambda>x. x \<noteq> colon) s # split_on colon r"
    using split_on_dropWhile [of colon s] by (simp add: Cons)
  moreover have "split_on colon r = takeWhile (\<lambda>x. x \<noteq> colon) r # tl (split_on colon r)"
    using hd_split_on [of colon r] split_on_nonempty [of colon r]
    by (cases "split_on colon r") auto
  ultimately have "split_on colon s =
      takeWhile (\<lambda>x. x \<noteq> colon) s # takeWhile (\<lambda>x. x \<noteq> colon) r # tl (split_on colon r)"
    by simp
  moreover have "stored_hash s = takeWhile (\<lambda>x. x \<noteq> colon) r"
    unfolding stored_hash_def Cons by simp
  ultimately show ?thesis
    unfolding stored_salt_def by (intro exI [of _ "tl (split_on colon r)"]) simp
qed

lemma verify_fields:
  "verifyPassword encode digest p s \<longleftrightarrow>
     two_fields s \<and>
     to_hex (digest (encode (to_hex (digest (encode p)) @ stored_salt s))) = stored_hash s"
  using split_on_two [of s]
  by (auto simp: verifyPassword_def Let_def element_def truthy_def two_fields_def)

lemma salt_hash_form_two_fields: "salt_hash_form s \<Longrightarrow> two_fields s"
  using split_on_two [of s]
  by (auto simp: salt_hash_form_def two_fields_def split: list.splits)

text \<open>
  C10, as stated, fails. The stored hash \<open>salt:hash:junk\<close>, a hash produced by
  \<open>hashPassword\<close> followed by a third field, is not of the form \<open>salt:hash\<close>, and
  \<open>verifyPassword\<close> returns true for it.
\<close>

theorem verifyPassword_counterexample:
  "\<not> salt_hash_form
       (hashPassword demo_encode demo_digest (replicate 16 7) (js ''secret'') @ js '':junk'') \<and>
   verifyPassword demo_encode demo_digest (js ''secret'')
     (hashPassword demo_encode demo_digest (replicate 16 7) (js ''secret'') @ js '':junk'')"
proof -
  define salted where
    "salted = to_hex (demo_digest (demo_encode
       (to_hex (demo_digest (demo_encode (js ''secret''))) @ to_hex (replicate 16 7))))"
  have junk: "colon \<notin> set (js ''junk'')"
    by (simp add: js_def colon_def)
  have parts: "split_on colon
      (hashPassword demo_encode demo_digest (replicate 16 7) (js ''secret'') @ js '':junk'') =
      [to_hex (replicate 16 7), salted, js ''junk'']"
  proof -
    have "hashPassword demo_encode demo_digest (replicate 16 7) (js ''secret'') @ js '':junk'' =
        to_hex (replicate 16 7) @ colon # (salted @ colon # js ''junk'')"
      by (simp add: hashPassword_def Let_def salted_def js_def colon_def)
    then show ?thesis
      by (simp add: split_on_append split_on_no_sep colon_notin_to_hex junk salted_def)
  qed
  have "to_hex (replicate 16 (7 :: 8 word)) \<noteq> []" and "salted \<noteq> []"
    by (simp_all add: to_hex_empty salted_def demo_digest_def)
  then show ?thesis
    unfolding salt_hash_form_def verifyPassword_def parts
    by (simp add: Let_def element_def truthy_def salted_def)
qed

text \<open>
  C10, amended. With a salt of sixteen bytes and a digest of thirty-two bytes (SHA-256), a
  password verifies against the hash \<open>hashPassword\<close> produced for it, whatever the
  password, the salt and the encoder. \<open>verifyPassword\<close> returns false for every stored
  hash whose first field (the text before the first colon) or second field (the text
  between the first colon and the next colon or the end) is empty or missing. For every
  other stored hash it returns true exactly when the second field is the salted hash of
  the password computed with the first field: further fields are ignored and no field is
  checked to be hex. Every stored hash of the documented form \<open>salt:hash\<close> has both
  fields.
\<close>

theorem verifyPassword_hashPassword:
  assumes "length salt = 16" and "\<And>m. length (digest m) = 32"
  shows "verifyPassword encode digest p (hashPassword encode digest salt p) \<and>
         (\<not> two_fields s \<longrightarrow> \<not> verifyPassword encode digest p s) \<and>
         (two_fields s \<longrightarrow>
            verifyPassword encode digest p s =
              (to_hex (digest (encode (to_hex (digest (encode p)) @ stored_salt s))) =
               stored_hash s)) \<and>
         (salt_hash_form s \<longrightarrow> two_fields s)"
proof -
  have "salt \<noteq> []"
    using assms(1) by auto
  moreover have "digest (encode (to_hex (digest (encode p)) @ to_hex salt)) \<noteq> []"
    using assms(2) [of "encode (to_hex (digest (encode p)) @ to_hex salt)"] by auto
  ultimately show ?thesis
    using verify_roundtrip [of salt digest encode p] verify_fields [of encode digest p s]
      salt_hash_form_two_fields [of s]
    by blast
qed

theorem verifyPassword_hashPassword_witness:
  "length (replicate 16 (7 :: 8 word)) = 16 \<and>
   (\<forall>m. length (demo_digest m) = 32) \<and>
   verifyPassword demo_encode demo_digest (js ''secret'')
     (hashPassword demo_encode demo_digest (replicate 16 7) (js ''secret'')) \<and>
   \<not> two_fields (js ''0a1b2c'') \<and>
   \<not> verifyPassword demo_encode demo_digest (js ''secret'') (js ''0a1b2c'') \<and>
   two_fields (js ''0a:1b:2c'') \<and> salt_hash_form (js ''0a:1b'') \<and>
   \<not> verifyPassword demo_encode demo_digest (js ''secret'') (js ''0a:1b:2c'')"
proof -
  have a: "length (replicate 16 (7 :: 8 word)) = 16"
    by simp
  have b: "\<And>m. length (demo_digest m) = 32"
    by (simp add: demo_digest_def)
  have c: "\<not> two_fields (js ''0a1b2c'')"
    by (simp add: two_fields_def stored_salt_def stored_hash_def js_def colon_def)
  have d: "two_fields (js ''0a:1b:2c'')"
    by (simp add: two_fields_def stored_salt_def stored_hash_def js_def colon_def)
  have e: "stored_hash (js ''0a:1b:2c'') = js ''1b''"
    by (simp add: stored_hash_def js_def colon_def)
  have f: "length (to_hex (demo_digest x)) = 64" for x
    by (simp add: to_hex_def demo_digest_def byte_hex_def length_concat o_def sum_list_replicate)
  have g: "to_hex (demo_digest x) \<noteq> js ''1b''" for x
    using f [of x] by (auto simp: js_def)
  have h: "salt_hash_form (js ''0a:1b'')"
    by (simp add: salt_hash_form_def js_def colon_def is_hex_def)
  show ?thesis
    using verifyPassword_hashPassword [of "replicate 16 7" demo_digest demo_encode
        "js ''secret''" "js ''0a1b2c''", OF a b]
      verifyPassword_hashPassword [of "replicate 16 7" demo_digest demo_encode
        "js ''secret''" "js ''0a:1b:2c''", OF a b] b c d e g h
    by simp
qed

section \<open>CSV import: rows are kept or counted invalid\<close>

lemma split_ws_nonempty: "split_ws s \<noteq> []"
  by (induction s rule: split_ws.induct) (auto split: list.splits)

lemma hd_split_ws: "\<not> is_ws x \<Longrightarrow> hd (split_ws (x # xs)) \<noteq> []"
  by (auto split: list.splits)

lemma rev_dropWhile_rev_prefix:
  "rev (dropWhile P (rev t)) @ rev (takeWhile P (rev t)) = t"
  by (metis rev_append rev_rev_ident takeWhile_dropWhile_id)

lemma trim_hd: "trim s \<noteq> [] \<Longrightarrow> \<not> is_ws (hd (trim s))"
proof -
  assume a: "trim s \<noteq> []"
  define t where "t = dropWhile is_ws s"
  have t: "trim s @ rev (takeWhile is_ws (rev t)) = t"
    unfolding trim_def t_def by (rule rev_dropWhile_rev_prefix)
  from a t have "t \<noteq> []" by auto
  then have "\<not> is_ws (hd t)"
    unfolding t_def by (rule hd_dropWhile)
  moreover from a t have "hd t = hd (trim s)"
    by (metis hd_append2)
  ultimately show ?thesis by simp
qed

lemma trim_last: "trim s \<noteq> [] \<Longrightarrow> \<not> is_ws (last (trim s))"
proof -
  assume a: "trim s \<noteq> []"
  then have "dropWhile is_ws (rev (dropWhile is_ws s)) \<noteq> []"
    by (simp add: trim_def)
  then have "\<not> is_ws (hd (dropWhile is_ws (rev (dropWhile is_ws s))))"
    by (rule hd_dropWhile)
  then show ?thesis
    using a by (simp add: trim_def last_rev)
qed

lemma trim_id: "s \<noteq> [] \<Longrightarrow> \<not> is_ws (hd s) \<Longrightarrow> \<not> is_ws (last s) \<Longrightarrow> trim s = s"
proof -
  assume a: "s \<noteq> []" "\<not> is_ws (hd s)" "\<not> is_ws (last s)"
  then have "dropWhile is_ws s = s"
    by (cases s) auto
  moreover from a have "dropWhile is_ws (rev s) = rev s"
    by (cases "rev s") (auto simp: last_rev [symmetric] hd_rev)
  ultimately show ?thesis by (simp add: trim_def)
qed

lemma trim_Nil: "trim [] = []"
  by (simp add: trim_def)

lemma trim_trim: "trim (trim s) = trim s"
proof (cases "trim s = []")
  case True
  then show ?thesis by (simp add: trim_Nil)
next
  case False
  then show ?thesis by (intro trim_id trim_hd trim_last)
qed

lemma getValue_trimmed: "trim (getValue hmap vals h) = getValue hmap vals h"
  by (auto simp: getValue_def trim_trim trim_Nil split: option.splits)

lemma splitFullName_fst:
  assumes "trim v = v"
  shows "fst (splitFullName v) = [] \<longleftrightarrow> v = []"
proof (cases v)
  case Nil
  then show ?thesis by (simp add: splitFullName_def trim_Nil)
next
  case (Cons x xs)
  with assms trim_hd [of v] have "\<not> is_ws x" by auto
  then have "hd (split_ws (x # xs)) \<noteq> []"
    by (rule hd_split_ws)
  moreover have "split_ws (x # xs) \<noteq> []"
    by (rule split_ws_nonempty)
  ultimately show ?thesis
    using assms Cons
    by (cases "split_ws (x # xs)") (auto simp: splitFullName_def Let_def)
qed

lemma splitFullName_snd_empty: "snd (splitFullName []) = []"
  by (simp add: splitFullName_def trim_Nil)

lemma dom_set_property: "dom (set_property k v m) = dom m \<union> ({k} - {proto_key})"
  by (auto simp: set_property_def)

lemma dom_fold_upd:
  "dom (fold (\<lambda>(h, i) m. set_property h i m) ps m0) = dom m0 \<union> (fst ` set ps - {proto_key})"
proof (induction ps arbitrary: m0)
  case Nil
  show ?case by simp
next
  case (Cons p ps)
  obtain h i where p: "p = (h, i)"
    by (cases p)
  have "dom (fold (\<lambda>(h, i) m. set_property h i m) (p # ps) m0) =
      dom (set_property h i m0) \<union> (fst ` set ps - {proto_key})"
    by (simp add: p Cons.IH)
  also have "\<dots> = dom m0 \<union> (fst ` set (p # ps) - {proto_key})"
    unfolding dom_set_property by (auto simp: p)
  finally show ?case .
qed

lemma fst_set_zip_upt: "fst ` set (zip hs [0..<length hs]) = set hs"
proof -
  have "map fst (zip hs [0..<length hs]) = hs"
    by (rule map_fst_zip) simp
  then have "set (map fst (zip hs [0..<length hs])) = set hs"
    by (rule arg_cong)
  then show ?thesis
    by (simp only: set_map)
qed

lemma dom_headerIndexMap: "dom (headerIndexMap hs) = set hs - {proto_key}"
  unfolding headerIndexMap_def
  by (simp only: dom_fold_upd fst_set_zip_upt dom_empty Un_empty_left)

lemma missing_columns_plain:
  assumes "hmap hasOwnProperty_key = None"
  shows "missing_columns mapping hmap fs =
           Inr (filter (\<lambda>field. \<not> (mapping field \<noteq> [] \<and> hmap (mapping field) \<noteq> None)) fs)"
  using assms by (induction fs) (auto simp: hasOwnProperty_def)

lemma missing_columns_throws:
  assumes "hmap hasOwnProperty_key \<noteq> None" and "\<exists>field \<in> set fs. mapping field \<noteq> []"
  shows "missing_columns mapping hmap fs = Inl NotAFunction"
  using assms by (induction fs) (auto simp: hasOwnProperty_def split: sum.splits)

lemma row_missing_iff:
  "row_missing mapping hmap vals \<longleftrightarrow>
     getValue hmap vals (mapping FirstName) = [] \<or> getValue hmap vals (mapping LastName) = [] \<or>
     getValue hmap vals (mapping Email) = [] \<or> getValue hmap vals (mapping Company) = [] \<or>
     getValue hmap vals (mapping Title) = []"
  by (simp add: row_missing_def REQUIRED_FIELDS_def)

lemma name_parts_empty:
  assumes "trim v = v"
  shows "fst (splitFullName v) = [] \<or>
         (if snd (splitFullName v) \<noteq> [] then snd (splitFullName v) else v) = [] \<longleftrightarrow> v = []"
proof (cases "v = []")
  case True
  then show ?thesis
    using splitFullName_fst [OF assms] by (simp add: splitFullName_snd_empty)
next
  case False
  then show ?thesis
    using splitFullName_fst [OF assms] by auto
qed

lemma processRow_unfold:
  "processRow mapping hdrs hmap comb vals st =
     (if firstNameOf mapping hmap comb vals = [] \<or> lastNameOf mapping hmap comb vals = [] \<or>
         getValue hmap vals (mapping Email) = [] \<or> getValue hmap vals (mapping Company) = [] \<or>
         getValue hmap vals (mapping Title) = []
      then (fst st, snd st + 1)
      else (fst st @
              [\<lparr>firstName = firstNameOf mapping hmap comb vals,
                lastName = lastNameOf mapping hmap comb vals,
                email = getValue hmap vals (mapping Email),
                company = getValue hmap vals (mapping Company),
                title = getValue hmap vals (mapping Title),
                raw_data = rawData hdrs vals\<rparr>],
            snd st))"
  unfolding processRow_def Let_def firstNameOf_def lastNameOf_def by (rule refl)

lemma names_empty:
  assumes "truthy comb \<longrightarrow> mapping FirstName = mapping LastName"
  shows "firstNameOf mapping hmap comb vals = [] \<or> lastNameOf mapping hmap comb vals = [] \<longleftrightarrow>
         getValue hmap vals (mapping FirstName) = [] \<or> getValue hmap vals (mapping LastName) = []"
proof (cases "truthy comb")
  case False
  then show ?thesis
    by (simp add: firstNameOf_def lastNameOf_def)
next
  case True
  define v where "v = getValue hmap vals (mapping FirstName)"
  have same: "mapping LastName = mapping FirstName"
    using assms True by simp
  have e: "fst (splitFullName v) = [] \<or>
           (if snd (splitFullName v) \<noteq> [] then snd (splitFullName v) else v) = [] \<longleftrightarrow> v = []"
    unfolding v_def by (rule name_parts_empty) (rule getValue_trimmed)
  have f: "firstNameOf mapping hmap comb vals = fst (splitFullName v)"
    by (simp add: firstNameOf_def True v_def)
  have l: "lastNameOf mapping hmap comb vals =
           (if snd (splitFullName v) \<noteq> [] then snd (splitFullName v) else v)"
    by (simp add: lastNameOf_def True same v_def)
  show ?thesis
    unfolding f l same v_def [symmetric] using e by blast
qed

lemma processRow_eq:
  assumes "truthy comb \<longrightarrow> mapping FirstName = mapping LastName"
  shows "processRow mapping hdrs hmap comb vals st =
     (if row_missing mapping hmap vals then (fst st, snd st + 1)
      else (fst st @ [contactOf mapping hdrs hmap comb vals], snd st))"
proof -
  have "row_missing mapping hmap vals \<longleftrightarrow>
        (firstNameOf mapping hmap comb vals = [] \<or> lastNameOf mapping hmap comb vals = []) \<or>
        getValue hmap vals (mapping Email) = [] \<or> getValue hmap vals (mapping Company) = [] \<or>
        getValue hmap vals (mapping Title) = []"
    using names_empty [OF assms, where hmap = hmap and vals = vals]
    unfolding row_missing_iff by blast
  then show ?thesis
    unfolding processRow_unfold contactOf_def by (simp only: disj_assoc)
qed

lemma processRow_missing:
  assumes "truthy comb \<longrightarrow> mapping FirstName = mapping LastName"
    and "row_missing mapping hmap vals"
  shows "processRow mapping hdrs hmap comb vals st = (fst st, snd st + 1)"
  using assms(2) by (simp only: processRow_eq [OF assms(1)] if_True)

lemma processRow_complete:
  assumes "truthy comb \<longrightarrow> mapping FirstName = mapping LastName"
    and "\<not> row_missing mapping hmap vals"
  shows "processRow mapping hdrs hmap comb vals st =
           (fst st @ [contactOf mapping hdrs hmap comb vals], snd st)"
  using assms(2) by (simp only: processRow_eq [OF assms(1)] if_False)

lemma kept_contactOf:
  "kept (contactOf mapping hdrs hmap comb vals) =
     (getValue hmap vals (mapping Email), getValue hmap vals (mapping Company),
      getValue hmap vals (mapping Title))"
  by (simp add: kept_def contactOf_def)

lemma named_contactOf:
  assumes "truthy comb \<longrightarrow> mapping FirstName = mapping LastName"
    and "\<not> row_missing mapping hmap vals"
  shows "named (contactOf mapping hdrs hmap comb vals)"
proof -
  have "firstNameOf mapping hmap comb vals \<noteq> [] \<and> lastNameOf mapping hmap comb vals \<noteq> []"
    using names_empty [OF assms(1), where hmap = hmap and vals = vals] assms(2)
    by (simp add: row_missing_iff)
  then show ?thesis
    by (simp add: named_def contactOf_def)
qed

lemma fold_processRow_invalid:
  assumes "truthy comb \<longrightarrow> mapping FirstName = mapping LastName"
  shows "snd (fold (processRow mapping hdrs hmap comb) rows st) =
           snd st + length (filter (row_missing mapping hmap) rows)"
proof (induction rows arbitrary: st)
  case Nil
  show ?case by simp
next
  case (Cons vals rows)
  show ?case
  proof (cases "row_missing mapping hmap vals")
    case True
    then show ?thesis
      by (simp add: Cons.IH processRow_missing [OF assms True])
  next
    case False
    then show ?thesis
      by (simp add: Cons.IH processRow_complete [OF assms False])
  qed
qed

lemma fold_processRow_kept:
  assumes "truthy comb \<longrightarrow> mapping FirstName = mapping LastName"
  shows "map kept (fst (fold (processRow mapping hdrs hmap comb) rows st)) =
           map kept (fst st) @
           map (\<lambda>vals. (getValue hmap vals (mapping Email), getValue hmap vals (mapping Company),
                        getValue hmap vals (mapping Title)))
             (filter (\<lambda>vals. \<not> row_missing mapping hmap vals) rows)"
proof (induction rows arbitrary: st)
  case Nil
  show ?case by simp
next
  case (Cons vals rows)
  show ?case
  proof (cases "row_missing mapping hmap vals")
    case True
    then show ?thesis
      by (simp add: Cons.IH processRow_missing [OF assms True])
  next
    case False
    then show ?thesis
      by (simp add: Cons.IH processRow_complete [OF assms False] kept_contactOf)
  qed
qed

lemma fold_processRow_named:
  assumes "truthy comb \<longrightarrow> mapping FirstName = mapping LastName"
    and "\<forall>c \<in> set (fst st). named c"
  shows "\<forall>c \<in> set (fst (fold (processRow mapping hdrs hmap comb) rows st)). named c"
  using assms(2)
proof (induction rows arbitrary: st)
  case Nil
  then show ?case by simp
next
  case (Cons vals rows)
  show ?case
  proof (cases "row_missing mapping hmap vals")
    case True
    then show ?thesis
      using Cons.IH [of "(fst st, snd st + 1)"] Cons.prems
      by (simp add: processRow_missing [OF assms(1) True])
  next
    case False
    then show ?thesis
      using Cons.IH [of "(fst st @ [contactOf mapping hdrs hmap comb vals], snd st)"] Cons.prems
        named_contactOf [OF assms(1) False, of hdrs]
      by (simp add: processRow_complete [OF assms(1) False])
  qed
qed

lemma missing_row_missing:
  "missing fileContent mapping = row_missing mapping (headerIndexMap (csv_headers fileContent))"
  by (rule ext) (simp add: missing_def row_missing_def cell_def)

lemma parse_short:
  assumes "length (csv_lines fileContent) < 2"
  shows "parseCsvWithMapping fileContent mapping = Inr \<lparr>contacts = [], invalidRows = 0\<rparr>"
    and "csv_data_rows fileContent = []"
proof -
  show "parseCsvWithMapping fileContent mapping = Inr \<lparr>contacts = [], invalidRows = 0\<rparr>"
    using assms by (simp add: parseCsvWithMapping_def Let_def)
  have "tl (csv_lines fileContent) = []"
    using assms by (cases "csv_lines fileContent") auto
  then show "csv_data_rows fileContent = []"
    by (simp add: csv_data_rows_def)
qed

lemma parse_headers:
  assumes "\<not> length (csv_lines fileContent) < 2"
  shows "map trim (split_on comma (csv_lines fileContent ! 0)) = csv_headers fileContent"
proof -
  have "csv_lines fileContent \<noteq> []"
    using assms by auto
  then show ?thesis
    by (simp add: csv_headers_def hd_conv_nth)
qed

lemma parse_long:
  assumes "\<not> length (csv_lines fileContent) < 2" and "covers mapping fileContent"
    and "hasOwnProperty_key \<notin> set (csv_headers fileContent)"
    and "\<forall>f \<in> set REQUIRED_FIELDS. mapping f \<noteq> proto_key"
  shows "parseCsvWithMapping fileContent mapping =
     Inr \<lparr>contacts =
            fst (fold (processRow mapping (csv_headers fileContent)
                         (headerIndexMap (csv_headers fileContent))
                         (if mapping FirstName \<noteq> [] \<and> mapping LastName \<noteq> [] \<and>
                             mapping FirstName = mapping LastName
                          then Some (mapping FirstName) else None))
                   (csv_data_rows fileContent) ([], 0)),
          invalidRows =
            snd (fold (processRow mapping (csv_headers fileContent)
                         (headerIndexMap (csv_headers fileContent))
                         (if mapping FirstName \<noteq> [] \<and> mapping LastName \<noteq> [] \<and>
                             mapping FirstName = mapping LastName
                          then Some (mapping FirstName) else None))
                   (csv_data_rows fileContent) ([], 0))\<rparr>"
proof -
  have h: "map trim (split_on comma (csv_lines fileContent ! 0)) = csv_headers fileContent"
    by (rule parse_headers [OF assms(1)])
  have d: "sanitizeRows (drop 1 (csv_lines fileContent)) = csv_data_rows fileContent"
    by (simp add: sanitizeRows_def csv_data_rows_def drop_Suc)
  have own: "headerIndexMap (csv_headers fileContent) hasOwnProperty_key = None"
    using assms(3) dom_headerIndexMap [of "csv_headers fileContent"] by (auto simp: domIff)
  have "\<forall>f \<in> set REQUIRED_FIELDS. mapping f \<noteq> [] \<and>
      mapping f \<in> dom (headerIndexMap (csv_headers fileContent))"
    using assms(2,4) by (simp add: covers_def dom_headerIndexMap)
  then have "filter (\<lambda>field. \<not> (mapping field \<noteq> [] \<and>
      headerIndexMap (csv_headers fileContent) (mapping field) \<noteq> None)) REQUIRED_FIELDS = []"
    by (auto simp: filter_empty_conv domIff)
  then have m: "missing_columns mapping (headerIndexMap (csv_headers fileContent)) REQUIRED_FIELDS =
      Inr []"
    by (simp only: missing_columns_plain
        [where hmap = "headerIndexMap (csv_headers fileContent)", OF own])
  show ?thesis
    using assms(1)
    by (simp only: parseCsvWithMapping_def Let_def h d m if_False list.size less_irrefl
        sum.case)
qed

text \<open>
  When the mapping names a present header for each required field, no column is named
  \<open>hasOwnProperty\<close> and no required field is mapped to a column named \<open>__proto__\<close>,
  \<open>parseCsvWithMapping\<close> returns; \<open>invalidRows\<close> is the number of data rows that miss
  a required cell; the returned contacts are, in order, the rows that miss none (shown
  through their email, company and title cells), each with a first and a last name; and
  contacts and invalid rows add up to the data rows.
\<close>

lemma parseCsvWithMapping_counts:
  assumes "covers mapping fileContent"
    and "hasOwnProperty_key \<notin> set (csv_headers fileContent)"
    and "\<forall>f \<in> set REQUIRED_FIELDS. mapping f \<noteq> proto_key"
  shows "\<exists>r. parseCsvWithMapping fileContent mapping = Inr r \<and>
           invalidRows r =
             length (filter (missing fileContent mapping) (csv_data_rows fileContent)) \<and>
           map kept (contacts r) =
             map (\<lambda>row. (cell fileContent mapping row Email, cell fileContent mapping row Company,
                          cell fileContent mapping row Title))
               (filter (\<lambda>row. \<not> missing fileContent mapping row) (csv_data_rows fileContent)) \<and>
           (\<forall>c \<in> set (contacts r). named c) \<and>
           length (contacts r) + invalidRows r = length (csv_data_rows fileContent)"
proof (cases "length (csv_lines fileContent) < 2")
  case True
  show ?thesis
    using parse_short(1) [OF True, of mapping] parse_short(2) [OF True] by simp
next
  case False
  define hmap where "hmap = headerIndexMap (csv_headers fileContent)"
  define comb where "comb =
    (if mapping FirstName \<noteq> [] \<and> mapping LastName \<noteq> [] \<and> mapping FirstName = mapping LastName
     then Some (mapping FirstName) else None)"
  define st where "st =
    fold (processRow mapping (csv_headers fileContent) hmap comb) (csv_data_rows fileContent)
      ([], 0)"
  have c: "truthy comb \<longrightarrow> mapping FirstName = mapping LastName"
    by (simp add: comb_def truthy_def)
  have p: "parseCsvWithMapping fileContent mapping = Inr \<lparr>contacts = fst st, invalidRows = snd st\<rparr>"
    unfolding st_def hmap_def comb_def by (rule parse_long [OF False assms])
  have i: "snd st = length (filter (missing fileContent mapping) (csv_data_rows fileContent))"
    unfolding st_def missing_row_missing hmap_def [symmetric]
    by (simp add: fold_processRow_invalid [OF c])
  have k: "map kept (fst st) =
      map (\<lambda>row. (cell fileContent mapping row Email, cell fileContent mapping row Company,
                   cell fileContent mapping row Title))
        (filter (\<lambda>row. \<not> missing fileContent mapping row) (csv_data_rows fileContent))"
    unfolding st_def missing_row_missing cell_def hmap_def [symmetric]
    by (simp add: fold_processRow_kept [OF c])
  have n: "\<forall>c \<in> set (fst st). named c"
    unfolding st_def by (rule fold_processRow_named [OF c]) simp
  have "length (fst st) =
      length (filter (\<lambda>row. \<not> missing fileContent mapping row) (csv_data_rows fileContent))"
    using arg_cong [OF k, of length] by simp
  then have t: "length (fst st) + snd st = length (csv_data_rows fileContent)"
    using sum_length_filter_compl [of "missing fileContent mapping" "csv_data_rows fileContent"]
    by (simp add: i)
  show ?thesis
    using p i k n t by simp
qed

lemma parseCsvWithMapping_counts_example:
  "\<exists>r. parseCsvWithMapping
          (js ''f,l,e,c,t'' @ [lf] @ js ''Al,Bo,a@b,Co,Dr'' @ [cr, lf] @ js ''Ed,,e@f,Go,Hr'')
          plain_mapping = Inr r \<and>
        length (contacts r) + invalidRows r = 2 \<and>
        invalidRows r = 1 \<and> map kept (contacts r) = [(js ''a@b'', js ''Co'', js ''Dr'')]"
proof -
  define content where
    "content = js ''f,l,e,c,t'' @ [lf] @ js ''Al,Bo,a@b,Co,Dr'' @ [cr, lf] @ js ''Ed,,e@f,Go,Hr''"
  have l: "csv_lines content = [js ''f,l,e,c,t'', js ''Al,Bo,a@b,Co,Dr'', js ''Ed,,e@f,Go,Hr'']"
    by (simp add: content_def csv_lines_def trim_def is_ws_def js_def lf_def cr_def replace_cr_def)
  have h: "csv_headers content = [js ''f'', js ''l'', js ''e'', js ''c'', js ''t'']"
    by (simp add: csv_headers_def l) (simp add: js_def comma_def trim_def is_ws_def)
  have d: "csv_data_rows content =
      [[js ''Al'', js ''Bo'', js ''a@b'', js ''Co'', js ''Dr''],
       [js ''Ed'', [], js ''e@f'', js ''Go'', js ''Hr'']]"
    by (simp add: csv_data_rows_def l) (simp add: js_def comma_def trim_def is_ws_def)
  have c: "covers plain_mapping content"
    by (simp add: covers_def h REQUIRED_FIELDS_def plain_mapping_def) (simp add: js_def)
  have o: "hasOwnProperty_key \<notin> set (csv_headers content)"
    by (simp add: h hasOwnProperty_key_def) (simp add: js_def)
  have p: "\<forall>f \<in> set REQUIRED_FIELDS. plain_mapping f \<noteq> proto_key"
    by (simp add: REQUIRED_FIELDS_def plain_mapping_def proto_key_def) (simp add: js_def)
  have m: "headerIndexMap (csv_headers content) =
      [js ''f'' \<mapsto> 0, js ''l'' \<mapsto> 1, js ''e'' \<mapsto> 2, js ''c'' \<mapsto> 3, js ''t'' \<mapsto> 4]"
    by (simp add: h headerIndexMap_def upt_rec numeral_eq_Suc set_property_def proto_key_def)
      (simp add: js_def)
  have v: "\<not> missing content plain_mapping [js ''Al'', js ''Bo'', js ''a@b'', js ''Co'', js ''Dr'']"
    "missing content plain_mapping [js ''Ed'', [], js ''e@f'', js ''Go'', js ''Hr'']"
    "cell content plain_mapping [js ''Al'', js ''Bo'', js ''a@b'', js ''Co'', js ''Dr''] Email = js ''a@b''"
    "cell content plain_mapping [js ''Al'', js ''Bo'', js ''a@b'', js ''Co'', js ''Dr''] Company = js ''Co''"
    "cell content plain_mapping [js ''Al'', js ''Bo'', js ''a@b'', js ''Co'', js ''Dr''] Title = js ''Dr''"
    by (simp_all add: missing_def cell_def m REQUIRED_FIELDS_def plain_mapping_def getValue_def
        element_def js_def trim_def is_ws_def)
  show ?thesis
    using parseCsvWithMapping_counts [OF c o p]
    unfolding content_def [symmetric]
    by (auto simp: d v)
qed

text \<open>
  C4. The claim fails on the code for a file with a column named \<open>hasOwnProperty\<close>:
  whatever the mapping, as long as it covers the required fields, the call
  \<open>headerIndexMap.hasOwnProperty(headerName)\<close> finds a column index in place of the
  method and \<open>parseCsvWithMapping\<close> throws a \<open>TypeError\<close>; no row is counted. It fails
  too when a required field is mapped to a column named \<open>__proto__\<close>: the column is in
  the file, the object holds no property for it, and \<open>parseCsvWithMapping\<close> throws
  \<open>Could not identify columns\<close> with that field in the list.
\<close>

theorem parseCsvWithMapping_throws:
  assumes "\<not> length (csv_lines fileContent) < 2" and "covers mapping fileContent"
  shows "(hasOwnProperty_key \<in> set (csv_headers fileContent) \<longrightarrow>
            parseCsvWithMapping fileContent mapping = Inl NotAFunction) \<and>
         (hasOwnProperty_key \<notin> set (csv_headers fileContent) \<and>
          f \<in> set REQUIRED_FIELDS \<and> mapping f = proto_key \<longrightarrow>
            (\<exists>ms. parseCsvWithMapping fileContent mapping = Inl (CouldNotIdentifyColumns ms) \<and>
                  f \<in> set ms))"
proof (intro conjI impI)
  have h: "map trim (split_on comma (csv_lines fileContent ! 0)) = csv_headers fileContent"
    by (rule parse_headers [OF assms(1)])
  have k: "hasOwnProperty_key \<noteq> proto_key"
    by (simp add: hasOwnProperty_key_def proto_key_def js_def)
  {
    assume "hasOwnProperty_key \<in> set (csv_headers fileContent)"
    then have "hasOwnProperty_key \<in> dom (headerIndexMap (csv_headers fileContent))"
      using k by (simp add: dom_headerIndexMap)
    then have own: "headerIndexMap (csv_headers fileContent) hasOwnProperty_key \<noteq> None"
      by (simp add: domIff)
    have ex: "\<exists>field \<in> set REQUIRED_FIELDS. mapping field \<noteq> []"
      using assms(2) by (auto simp: covers_def REQUIRED_FIELDS_def)
    have m: "missing_columns mapping (headerIndexMap (csv_headers fileContent))
        REQUIRED_FIELDS = Inl NotAFunction"
      using own ex by (rule missing_columns_throws)
    show "parseCsvWithMapping fileContent mapping = Inl NotAFunction"
      using assms(1) by (simp only: parseCsvWithMapping_def Let_def h m if_False sum.case)
  }
  {
    assume a: "hasOwnProperty_key \<notin> set (csv_headers fileContent) \<and>
      f \<in> set REQUIRED_FIELDS \<and> mapping f = proto_key"
    define ms where "ms = filter (\<lambda>field. \<not> (mapping field \<noteq> [] \<and>
      headerIndexMap (csv_headers fileContent) (mapping field) \<noteq> None)) REQUIRED_FIELDS"
    have own: "headerIndexMap (csv_headers fileContent) hasOwnProperty_key = None"
      using a dom_headerIndexMap [of "csv_headers fileContent"] by (auto simp: domIff)
    have "proto_key \<notin> dom (headerIndexMap (csv_headers fileContent))"
      by (simp add: dom_headerIndexMap)
    then have "headerIndexMap (csv_headers fileContent) (mapping f) = None"
      using a by (simp add: domIff)
    then have f: "f \<in> set ms"
      using a by (simp add: ms_def)
    then have pos: "length ms > 0"
      by (cases ms) auto
    have m: "missing_columns mapping (headerIndexMap (csv_headers fileContent)) REQUIRED_FIELDS =
        Inr ms"
      unfolding ms_def using own by (rule missing_columns_plain)
    have "parseCsvWithMapping fileContent mapping = Inl (CouldNotIdentifyColumns ms)"
      using assms(1) pos
      by (simp only: parseCsvWithMapping_def Let_def h m if_False if_True sum.case)
    then show "\<exists>ms. parseCsvWithMapping fileContent mapping = Inl (CouldNotIdentifyColumns ms) \<and>
        f \<in> set ms"
      using f by blast
  }
qed

lemma csv_with_hasOwnProperty_headers:
  "csv_lines csv_with_hasOwnProperty = [js ''hasOwnProperty,f,l,e,c,t'', js ''x,Al,Bo,a@b,Co,Dr'']"
  "csv_headers csv_with_hasOwnProperty =
     [js ''hasOwnProperty'', js ''f'', js ''l'', js ''e'', js ''c'', js ''t'']"
proof -
  show l: "csv_lines csv_with_hasOwnProperty =
      [js ''hasOwnProperty,f,l,e,c,t'', js ''x,Al,Bo,a@b,Co,Dr'']"
    by (simp add: csv_with_hasOwnProperty_def csv_lines_def trim_def is_ws_def js_def lf_def
        cr_def replace_cr_def)
  show "csv_headers csv_with_hasOwnProperty =
      [js ''hasOwnProperty'', js ''f'', js ''l'', js ''e'', js ''c'', js ''t'']"
    by (simp add: csv_headers_def l) (simp add: js_def comma_def trim_def is_ws_def)
qed

lemma csv_with_proto_headers:
  "csv_lines csv_with_proto = [js ''__proto__,l,e,c,t'', js ''Al,Bo,a@b,Co,Dr'']"
  "csv_headers csv_with_proto = [js ''__proto__'', js ''l'', js ''e'', js ''c'', js ''t'']"
proof -
  show l: "csv_lines csv_with_proto = [js ''__proto__,l,e,c,t'', js ''Al,Bo,a@b,Co,Dr'']"
    by (simp add: csv_with_proto_def csv_lines_def trim_def is_ws_def js_def lf_def
        cr_def replace_cr_def)
  show "csv_headers csv_with_proto = [js ''__proto__'', js ''l'', js ''e'', js ''c'', js ''t'']"
    by (simp add: csv_headers_def l) (simp add: js_def comma_def trim_def is_ws_def)
qed

theorem parseCsvWithMapping_throws_witness:
  "\<not> length (csv_lines csv_with_hasOwnProperty) < 2 \<and>
   covers plain_mapping csv_with_hasOwnProperty \<and>
   parseCsvWithMapping csv_with_hasOwnProperty plain_mapping = Inl NotAFunction \<and>
   \<not> length (csv_lines csv_with_proto) < 2 \<and>
   covers proto_mapping csv_with_proto \<and>
   (\<exists>ms. parseCsvWithMapping csv_with_proto proto_mapping = Inl (CouldNotIdentifyColumns ms) \<and>
         FirstName \<in> set ms)"
proof -
  have a1: "\<not> length (csv_lines csv_with_hasOwnProperty) < 2"
    by (simp add: csv_with_hasOwnProperty_headers(1))
  have c1: "covers plain_mapping csv_with_hasOwnProperty"
    by (simp add: covers_def csv_with_hasOwnProperty_headers(2) REQUIRED_FIELDS_def
        plain_mapping_def) (simp add: js_def)
  have o1: "hasOwnProperty_key \<in> set (csv_headers csv_with_hasOwnProperty)"
    by (simp add: csv_with_hasOwnProperty_headers(2) hasOwnProperty_key_def)
  have a2: "\<not> length (csv_lines csv_with_proto) < 2"
    by (simp add: csv_with_proto_headers(1))
  have c2: "covers proto_mapping csv_with_proto"
    by (simp add: covers_def csv_with_proto_headers(2) REQUIRED_FIELDS_def
        proto_mapping_def) (simp add: js_def)
  have o2: "hasOwnProperty_key \<notin> set (csv_headers csv_with_proto)"
    by (simp add: csv_with_proto_headers(2) hasOwnProperty_key_def) (simp add: js_def)
  have f2: "FirstName \<in> set REQUIRED_FIELDS" "proto_mapping FirstName = proto_key"
    by (simp_all add: REQUIRED_FIELDS_def proto_mapping_def proto_key_def)
  show ?thesis
    using parseCsvWithMapping_throws [OF a1 c1] o1
      parseCsvWithMapping_throws [OF a2 c2, of FirstName] o2 f2 a1 c1 a2 c2
    by simp
qed

section \<open>Publishing: the text limit of LinkedIn\<close>

lemma failure_simps:
  "status (failure code msg) = code" "error (failure code msg) = Some msg"
  "success (failure code msg) = False"
  by (simp_all add: failure_def)

text \<open>
  C5. A LinkedIn publish request whose text is longer than 3000 characters is answered
  with an error and no call is made, neither the credential lookup nor a call to
  LinkedIn, by the handler and by the server route alike; when the request is otherwise
  well formed the error is the text-limit error, status 400.
\<close>

theorem linkedin_text_limit:
  assumes "body req = Some b" and "post_text b = Some t" and "length t > 3000"
  shows "snd (linkedin_post w req) = [] \<and> snd (server_linkedin_post w req) = [] \<and>
         status (fst (linkedin_post w req)) \<in> {400, 405} \<and>
         status (fst (server_linkedin_post w req)) = 400 \<and>
         error (fst (linkedin_post w req)) \<noteq> None \<and>
         error (fst (server_linkedin_post w req)) \<noteq> None \<and>
         (http_method req = js ''POST'' \<and> truthy (userId b) \<longrightarrow>
            fst (linkedin_post w req) =
              failure 400 (js ''Text exceeds LinkedIn limit of 3000 characters'')) \<and>
         (truthy (userId b) \<longrightarrow>
            fst (server_linkedin_post w req) =
              failure 400 (js ''Text exceeds LinkedIn limit of 3000 characters''))"
proof -
  have t: "truthy (post_text b)"
    using assms(2,3) by (auto simp: truthy_def)
  have l: "length (the (post_text b)) > 3000"
    using assms(2,3) by simp
  show ?thesis
    using assms(1) t l by (simp add: linkedin_post_def server_linkedin_post_def failure_simps)
qed

theorem linkedin_text_limit_witness:
  "body (demo_request (replicate 3001 120) None) =
     Some \<lparr>userId = Some (js ''u1''), post_text = Some (replicate 3001 120), imageUrl = None\<rparr> \<and>
   length (replicate 3001 (120::nat)) > 3000 \<and>
   linkedin_post (demo_world 5 [demo_credential (js ''linkedin'') (Some 9)])
     (demo_request (replicate 3001 120) None) =
     (failure 400 (js ''Text exceeds LinkedIn limit of 3000 characters''), []) \<and>
   server_linkedin_post (demo_world 5 [demo_credential (js ''linkedin'') (Some 9)])
     (demo_request (replicate 3001 120) None) =
     (failure 400 (js ''Text exceeds LinkedIn limit of 3000 characters''), [])"
proof -
  have a: "body (demo_request (replicate 3001 120) None) =
      Some \<lparr>userId = Some (js ''u1''), post_text = Some (replicate 3001 120), imageUrl = None\<rparr>"
    by (simp add: demo_request_def)
  have b: "post_text \<lparr>userId = Some (js ''u1''), post_text = Some (replicate 3001 (120::nat)),
      imageUrl = None\<rparr> = Some (replicate 3001 120)"
    by simp
  have c: "length (replicate 3001 (120::nat)) > 3000"
    by simp
  have d: "http_method (demo_request (replicate 3001 120) None) = js ''POST''"
    "truthy (userId \<lparr>userId = Some (js ''u1''), post_text = Some (replicate 3001 (120::nat)),
      imageUrl = None\<rparr>)"
    by (simp_all add: demo_request_def truthy_def js_def)
  show ?thesis
    using linkedin_text_limit [OF a b c,
        of "demo_world 5 [demo_credential (js ''linkedin'') (Some 9)]"] a c d
    by (simp add: prod_eq_iff)
qed

section \<open>Publishing: expired tokens\<close>

lemma expired_calls:
  assumes "body req = Some b"
    and "select_single w (the (userId b)) (js ''linkedin'') = Some c"
    and "token_expired w c"
  shows "snd (linkedin_post w req) = [] \<or>
         snd (linkedin_post w req) = [SelectCredential (the (userId b)) (js ''linkedin'')]"
    and "snd (server_linkedin_post w req) = [] \<or>
         snd (server_linkedin_post w req) = [SelectCredential (the (userId b)) (js ''linkedin'')]"
  using assms by (simp_all add: linkedin_post_def server_linkedin_post_def)

text \<open>
  C1, as the code has it. Only the LinkedIn handlers compare \<open>expires_at\<close> with the
  clock. When the stored LinkedIn credential of the requesting user has \<open>expires_at\<close>
  in the past, neither LinkedIn handler calls a content-creation endpoint, whatever the
  request; and a request that passes the earlier checks (POST, user and text present,
  text of at most 3000 characters, database client configured) is answered 401
  "LinkedIn token expired" with \<open>requiresReauth\<close>.
\<close>

theorem linkedin_token_expired:
  assumes "body req = Some b"
    and "select_single w (the (userId b)) (js ''linkedin'') = Some c"
    and "expires_at c = Some t" and "t < now w"
  shows "\<not> list_ex is_creation (snd (linkedin_post w req)) \<and>
         \<not> list_ex is_creation (snd (server_linkedin_post w req)) \<and>
         (http_method req = js ''POST'' \<and> truthy (userId b) \<and> truthy (post_text b) \<and>
          length (the (post_text b)) \<le> 3000 \<and>
          client_ok (env w (js ''VITE_SUPABASE_URL'')) (env w (js ''SUPABASE_SERVICE_ROLE_KEY'')) \<longrightarrow>
            fst (linkedin_post w req) =
              (failure 401 (js ''LinkedIn token expired'')) \<lparr>requiresReauth := True\<rparr>) \<and>
         (truthy (userId b) \<and> truthy (post_text b) \<and> length (the (post_text b)) \<le> 3000 \<and>
          client_ok (env w (js ''SUPABASE_URL'')) (env w (js ''SUPABASE_KEY'')) \<longrightarrow>
            fst (server_linkedin_post w req) =
              (failure 401 (js ''LinkedIn token expired'')) \<lparr>requiresReauth := True\<rparr>)"
proof -
  have e: "token_expired w c"
    using assms(3,4) by (simp add: token_expired_def)
  have "\<not> list_ex is_creation (snd (linkedin_post w req))"
    using expired_calls(1) [OF assms(1,2) e] by auto
  moreover have "\<not> list_ex is_creation (snd (server_linkedin_post w req))"
    using expired_calls(2) [OF assms(1,2) e] by auto
  moreover have "http_method req = js ''POST'' \<and> truthy (userId b) \<and> truthy (post_text b) \<and>
        length (the (post_text b)) \<le> 3000 \<and>
        client_ok (env w (js ''VITE_SUPABASE_URL'')) (env w (js ''SUPABASE_SERVICE_ROLE_KEY'')) \<longrightarrow>
      fst (linkedin_post w req) =
        (failure 401 (js ''LinkedIn token expired'')) \<lparr>requiresReauth := True\<rparr>"
    using assms(1,2) e by (simp add: linkedin_post_def)
  moreover have "truthy (userId b) \<and> truthy (post_text b) \<and> length (the (post_text b)) \<le> 3000 \<and>
        client_ok (env w (js ''SUPABASE_URL'')) (env w (js ''SUPABASE_KEY'')) \<longrightarrow>
      fst (server_linkedin_post w req) =
        (failure 401 (js ''LinkedIn token expired'')) \<lparr>requiresReauth := True\<rparr>"
    using assms(1,2) e by (simp add: server_linkedin_post_def)
  ultimately show ?thesis
    by blast
qed

lemma demo_env:
  "env (demo_world t rows) (js ''SUPABASE_URL'') = Some (js ''https://db'')"
  "env (demo_world t rows) (js ''SUPABASE_KEY'') = Some (js ''k'')"
  "env (demo_world t rows) (js ''VITE_SUPABASE_URL'') = Some (js ''https://db'')"
  "env (demo_world t rows) (js ''SUPABASE_SERVICE_ROLE_KEY'') = Some (js ''k'')"
  "env (demo_world t rows) (js ''VITE_SUPABASE_ANON_KEY'') = None"
  by (simp_all add: demo_world_def js_def)

lemma demo_select:
  "select_single (demo_world t [demo_credential p e]) (js ''u1'') p = Some (demo_credential p e)"
  by (simp add: select_single_def demo_world_def demo_credential_def)

lemma demo_client_ok:
  "client_ok (Some (js ''https://db'')) (Some (js ''k''))"
  by (simp add: client_ok_def truthy_def js_def)

theorem linkedin_token_expired_witness:
  "expires_at (demo_credential (js ''linkedin'') (Some 1000)) = Some 1000 \<and>
   1000 < now (demo_world 2000 [demo_credential (js ''linkedin'') (Some 1000)]) \<and>
   linkedin_post (demo_world 2000 [demo_credential (js ''linkedin'') (Some 1000)])
     (demo_request (js ''hello'') None) =
     ((failure 401 (js ''LinkedIn token expired'')) \<lparr>requiresReauth := True\<rparr>,
      [SelectCredential (js ''u1'') (js ''linkedin'')]) \<and>
   fst (server_linkedin_post (demo_world 2000 [demo_credential (js ''linkedin'') (Some 1000)])
     (demo_request (js ''hello'') None)) =
     (failure 401 (js ''LinkedIn token expired'')) \<lparr>requiresReauth := True\<rparr> \<and>
   \<not> list_ex is_creation
      (snd (server_linkedin_post (demo_world 2000 [demo_credential (js ''linkedin'') (Some 1000)])
         (demo_request (js ''hello'') None)))"
proof -
  define w where "w = demo_world 2000 [demo_credential (js ''linkedin'') (Some 1000)]"
  define b where "b = \<lparr>userId = Some (js ''u1''), post_text = Some (js ''hello''), imageUrl = None\<rparr>"
  have a1: "body (demo_request (js ''hello'') None) = Some b"
    by (simp add: demo_request_def b_def)
  have a2: "select_single w (the (userId b)) (js ''linkedin'') =
      Some (demo_credential (js ''linkedin'') (Some 1000))"
    by (simp add: w_def b_def demo_select)
  have a3: "expires_at (demo_credential (js ''linkedin'') (Some 1000)) = Some 1000"
    by (simp add: demo_credential_def)
  have a4: "1000 < now w"
    by (simp add: w_def demo_world_def)
  have v1: "http_method (demo_request (js ''hello'') None) = js ''POST''" "truthy (userId b)"
    "truthy (post_text b)" "length (the (post_text b)) \<le> 3000"
    by (simp_all add: demo_request_def b_def truthy_def js_def)
  have v2: "client_ok (env w (js ''VITE_SUPABASE_URL'')) (env w (js ''SUPABASE_SERVICE_ROLE_KEY''))"
    "client_ok (env w (js ''SUPABASE_URL'')) (env w (js ''SUPABASE_KEY''))"
    by (simp_all add: w_def demo_env demo_client_ok)
  note v = v1 v2
  have s: "snd (linkedin_post w (demo_request (js ''hello'') None)) =
      [SelectCredential (js ''u1'') (js ''linkedin'')]"
    using a1 a2 a3 a4 v
    by (simp add: linkedin_post_def token_expired_def b_def)
  show ?thesis
    using linkedin_token_expired [OF a1 a2 a3 a4] a3 a4 v s
    unfolding w_def [symmetric]
    by (simp add: prod_eq_iff)
qed

text \<open>
  The claim as stated fails: the X handler posts the tweet although the stored token
  expired (it never reads \<open>expires_at\<close>), and the LinkedIn handler answers an
  over-long text with the text-limit error, not with the token error.
\<close>

theorem token_expired_counterexample:
  "expires_at (demo_credential (js ''x'') (Some 1000)) = Some 1000 \<and>
   1000 < now (demo_world 2000 [demo_credential (js ''x'') (Some 1000)]) \<and>
   twitter_post (demo_world 2000 [demo_credential (js ''x'') (Some 1000)])
     (demo_request (js ''hello'') None) =
     (\<lparr>status = 200, error = None, requiresReauth = False, success = True, postId = None\<rparr>,
      [SelectCredential (js ''u1'') (js ''x''), CreateTweet (js ''hello'')]) \<and>
   linkedin_post (demo_world 2000 [demo_credential (js ''linkedin'') (Some 1000)])
     (demo_request (replicate 3001 120) None) =
     (failure 400 (js ''Text exceeds LinkedIn limit of 3000 characters''), [])"
proof -
  have "twitter_post (demo_world 2000 [demo_credential (js ''x'') (Some 1000)])
      (demo_request (js ''hello'') None) =
    (\<lparr>status = 200, error = None, requiresReauth = False, success = True, postId = None\<rparr>,
     [SelectCredential (js ''u1'') (js ''x''), CreateTweet (js ''hello'')])"
    by (simp add: twitter_post_def demo_request_def demo_env demo_select or_else_def
        demo_client_ok truthy_def tweet_text_def)
      (simp add: demo_world_def tweet_outcome_def js_def)
  moreover have "linkedin_post (demo_world 2000 [demo_credential (js ''linkedin'') (Some 1000)])
      (demo_request (replicate 3001 120) None) =
    (failure 400 (js ''Text exceeds LinkedIn limit of 3000 characters''), [])"
    by (simp add: linkedin_post_def demo_request_def truthy_def) (simp add: js_def)
  ultimately show ?thesis
    by (simp add: demo_credential_def demo_world_def)
qed

section \<open>Publishing: the tweet text\<close>

lemma truncated_text_length: "length (truncated_text t) \<le> availableChars"
  by (simp add: truncated_text_def availableChars_def TWITTER_CHAR_LIMIT_def URL_LENGTH_def js_def)

lemma twitter_calls:
  assumes "body req = Some b"
  shows "CreateTweet s \<in> set (snd (twitter_post w req)) \<Longrightarrow>
           s = tweet_text (the (post_text b)) (imageUrl b)"
    and "CreateTweet s \<in> set (snd (server_twitter_post w req)) \<Longrightarrow>
           s = tweet_text (the (post_text b)) (imageUrl b)"
  using assms
  by (auto simp: twitter_post_def server_twitter_post_def split: if_splits option.splits)

text \<open>
  C3, as the code has it. With an image URL present, the tweet that either X handler
  posts is the truncated text, a space and the URL; the text is cut to 253 characters
  plus an ellipsis when it is longer than 256, so that the truncated text, the space and
  23 characters for the link, the fixed \<open>URL_LENGTH\<close>, stay within 280. The length of
  the URL itself is not taken into account.
\<close>

theorem tweet_truncation:
  assumes "body req = Some b" and "post_text b = Some t" and "imageUrl b = Some url"
    and "url \<noteq> []"
  shows "(CreateTweet s \<in> set (snd (twitter_post w req)) \<or>
          CreateTweet s \<in> set (snd (server_twitter_post w req)) \<longrightarrow>
            s = truncated_text t @ js '' '' @ url) \<and>
         length (truncated_text t) + 1 + URL_LENGTH \<le> TWITTER_CHAR_LIMIT \<and>
         (length t > 256 \<longrightarrow> truncated_text t = take 253 t @ js ''...'') \<and>
         (length t \<le> 256 \<longrightarrow> truncated_text t = t)"
proof -
  have "tweet_text (the (post_text b)) (imageUrl b) = truncated_text t @ js '' '' @ url"
    using assms(2,3,4) by (simp add: tweet_text_def truthy_def)
  then have "CreateTweet s \<in> set (snd (twitter_post w req)) \<or>
      CreateTweet s \<in> set (snd (server_twitter_post w req)) \<longrightarrow>
      s = truncated_text t @ js '' '' @ url"
    using twitter_calls [OF assms(1), of s w] by auto
  moreover have "length (truncated_text t) + 1 + URL_LENGTH \<le> TWITTER_CHAR_LIMIT"
    using truncated_text_length [of t]
    by (simp add: availableChars_def TWITTER_CHAR_LIMIT_def URL_LENGTH_def)
  moreover have "length t > 256 \<longrightarrow> truncated_text t = take 253 t @ js ''...''"
    by (simp add: truncated_text_def availableChars_def TWITTER_CHAR_LIMIT_def URL_LENGTH_def)
  moreover have "length t \<le> 256 \<longrightarrow> truncated_text t = t"
    by (simp add: truncated_text_def availableChars_def TWITTER_CHAR_LIMIT_def URL_LENGTH_def)
  ultimately show ?thesis
    by blast
qed

lemma demo_twitter_trace:
  "snd (twitter_post (demo_world 5 [demo_credential (js ''x'') None]) (demo_request t url)) =
     [SelectCredential (js ''u1'') (js ''x''), CreateTweet (tweet_text t url)]"
  if "t \<noteq> []"
  using that
  by (simp add: twitter_post_def demo_request_def demo_env demo_select or_else_def
      demo_client_ok truthy_def)
    (simp add: js_def)

theorem tweet_truncation_witness:
  "body (demo_request (replicate 300 97) (Some (js ''https://cdn.example.com/a.png''))) =
     Some \<lparr>userId = Some (js ''u1''), post_text = Some (replicate 300 97),
           imageUrl = Some (js ''https://cdn.example.com/a.png'')\<rparr> \<and>
   js ''https://cdn.example.com/a.png'' \<noteq> [] \<and>
   CreateTweet (truncated_text (replicate 300 97) @ js '' '' @ js ''https://cdn.example.com/a.png'')
     \<in> set (snd (twitter_post (demo_world 5 [demo_credential (js ''x'') None])
                (demo_request (replicate 300 97) (Some (js ''https://cdn.example.com/a.png''))))) \<and>
   length (truncated_text (replicate 300 97)) + 1 + URL_LENGTH \<le> TWITTER_CHAR_LIMIT \<and>
   truncated_text (replicate 300 97) = take 253 (replicate 300 97) @ js ''...''"
proof -
  define tx :: jsstring where "tx = replicate 300 97"
  define url where "url = js ''https://cdn.example.com/a.png''"
  define b where "b = \<lparr>userId = Some (js ''u1''), post_text = Some tx, imageUrl = Some url\<rparr>"
  define w where "w = demo_world 5 [demo_credential (js ''x'') None]"
  define s where "s = truncated_text tx @ js '' '' @ url"
  have a1: "body (demo_request tx (Some url)) = Some b"
    by (simp add: demo_request_def b_def)
  have a2: "post_text b = Some tx"
    by (simp add: b_def)
  have a3: "imageUrl b = Some url"
    by (simp add: b_def)
  have a4: "url \<noteq> []"
    by (simp add: url_def js_def)
  have n: "tx \<noteq> []" "length tx > 256"
    by (simp_all add: tx_def)
  have "tweet_text tx (Some url) = s"
    using a4 by (simp add: tweet_text_def truthy_def s_def)
  then have "snd (twitter_post w (demo_request tx (Some url))) =
      [SelectCredential (js ''u1'') (js ''x''), CreateTweet s]"
    unfolding w_def using demo_twitter_trace [OF n(1), of "Some url"] by simp
  then have m: "CreateTweet s \<in> set (snd (twitter_post w (demo_request tx (Some url))))"
    by simp
  note th = tweet_truncation [OF a1 a2 a3 a4, of s w]
  have l: "length (truncated_text tx) + 1 + URL_LENGTH \<le> TWITTER_CHAR_LIMIT"
    using th by blast
  have t: "truncated_text tx = take 253 tx @ js ''...''"
    using th n(2) by blast
  show ?thesis
    using a1 a4 m l t
    unfolding b_def s_def w_def tx_def url_def by blast
qed

text \<open>
  The claim as stated fails: for a text of 300 characters and an image URL of 29
  characters the truncated text, the space and the URL make 286 characters, and that is
  the tweet the handler posts.
\<close>

theorem tweet_truncation_counterexample:
  "length (truncated_text (replicate 300 97)) + 1 + length (js ''https://cdn.example.com/a.png'')
     = 286 \<and>
   \<not> length (truncated_text (replicate 300 97)) + 1 + length (js ''https://cdn.example.com/a.png'')
     \<le> 280 \<and>
   snd (twitter_post (demo_world 5 [demo_credential (js ''x'') None])
          (demo_request (replicate 300 97) (Some (js ''https://cdn.example.com/a.png'')))) =
     [SelectCredential (js ''u1'') (js ''x''),
      CreateTweet (truncated_text (replicate 300 97) @ js '' '' @
                   js ''https://cdn.example.com/a.png'')] \<and>
   length (truncated_text (replicate 300 97) @ js '' '' @ js ''https://cdn.example.com/a.png'')
     = 286"
proof -
  have t: "truncated_text (replicate 300 97) = replicate 253 97 @ js ''...''"
    by (simp add: truncated_text_def availableChars_def TWITTER_CHAR_LIMIT_def URL_LENGTH_def)
  have u: "length (js ''https://cdn.example.com/a.png'') = 29" "length (js ''...'') = 3"
    "length (js '' '') = 1" "js ''https://cdn.example.com/a.png'' \<noteq> []"
    by (simp_all add: js_def)
  have d: "snd (twitter_post (demo_world 5 [demo_credential (js ''x'') None])
        (demo_request (replicate 300 97) (Some (js ''https://cdn.example.com/a.png'')))) =
      [SelectCredential (js ''u1'') (js ''x''),
       CreateTweet (truncated_text (replicate 300 97) @ js '' '' @
                    js ''https://cdn.example.com/a.png'')]"
    using demo_twitter_trace [of "replicate 300 97" "Some (js ''https://cdn.example.com/a.png'')"]
      u(4)
    by (simp add: tweet_text_def truthy_def)
  show ?thesis
    by (simp add: d) (simp add: t u)
qed

section \<open>Publishing: a failed image upload\<close>

text \<open>
  In the handler of api/linkedin/post.ts a failed image step leaves a text-only post:
  the content-creation call is made with category NONE and no media.
\<close>

lemma linkedin_post_image_fallback:
  assumes "http_method req = js ''POST''" and "body req = Some b" and "truthy (userId b)"
    and "truthy (post_text b)" and "length (the (post_text b)) \<le> 3000"
    and "client_ok (env w (js ''VITE_SUPABASE_URL'')) (env w (js ''SUPABASE_SERVICE_ROLE_KEY''))"
    and "select_single w (the (userId b)) (js ''linkedin'') = Some c"
    and "\<not> token_expired w c" and "truthy (account_id c)" and "truthy (imageUrl b)"
    and "fst (upload_steps w (the (account_id c)) (the (imageUrl b))) = None"
  shows "last (snd (linkedin_post w req)) =
           CreatePost \<lparr>author = person_urn (the (account_id c)),
                       shareCommentary = the (post_text b),
                       shareMediaCategory = NONE, media = None\<rparr>"
  using assms by (simp add: linkedin_post_def Let_def)

text \<open>
  C6 at a failing input: LinkedIn refuses to register the upload. The server route
  answers 500 without the content-creation call; the handler of api/linkedin/post.ts
  posts the text alone.
\<close>

theorem server_image_failure:
  "server_linkedin_post (demo_world 5 [demo_credential (js ''linkedin'') (Some 9)])
     (demo_request (js ''hello'') (Some (js ''https://img''))) =
     (failure 500 (js ''Failed to post to LinkedIn''),
      [SelectCredential (js ''u1'') (js ''linkedin''), RegisterUpload (js ''urn:li:person:abc'')]) \<and>
   linkedin_post (demo_world 5 [demo_credential (js ''linkedin'') (Some 9)])
     (demo_request (js ''hello'') (Some (js ''https://img''))) =
     (\<lparr>status = 200, error = None, requiresReauth = False, success = True,
        postId = Some (js ''s1'')\<rparr>,
      [SelectCredential (js ''u1'') (js ''linkedin''), RegisterUpload (js ''urn:li:person:abc''),
       CreatePost \<lparr>author = js ''urn:li:person:abc'', shareCommentary = js ''hello'',
                   shareMediaCategory = NONE, media = None\<rparr>])"
proof -
  have e: "\<not> token_expired (demo_world 5 [demo_credential (js ''linkedin'') (Some 9)])
      (demo_credential (js ''linkedin'') (Some 9))"
    by (simp add: token_expired_def demo_world_def demo_credential_def)
  have a: "account_id (demo_credential (js ''linkedin'') (Some 9)) = Some (js ''abc'')"
    by (simp add: demo_credential_def)
  have u: "truthy (Some (js ''u1''))" "truthy (Some (js ''hello''))"
    "truthy (Some (js ''https://img''))" "truthy (Some (js ''abc''))"
    "\<not> 3000 < length (js ''hello'')"
    "js ''urn:li:person:'' @ js ''abc'' = js ''urn:li:person:abc''"
    by (simp_all add: truthy_def js_def)
  have r: "register_upload (demo_world 5 [demo_credential (js ''linkedin'') (Some 9)]) =
      (\<lambda>owner. Reply False 500 None)"
    "create_post (demo_world 5 [demo_credential (js ''linkedin'') (Some 9)]) =
      (\<lambda>p. Reply True 201 \<lparr>body_text = js ''{}'', body_json = Some [js ''id'' \<mapsto> js ''s1'']\<rparr>)"
    by (simp_all add: demo_world_def)
  have "server_linkedin_post (demo_world 5 [demo_credential (js ''linkedin'') (Some 9)])
      (demo_request (js ''hello'') (Some (js ''https://img''))) =
      (failure 500 (js ''Failed to post to LinkedIn''),
       [SelectCredential (js ''u1'') (js ''linkedin''), RegisterUpload (js ''urn:li:person:abc'')])"
    by (simp add: server_linkedin_post_def demo_request_def demo_env demo_select demo_client_ok
        e a u r server_upload_steps_def Let_def)
  moreover have "linkedin_post (demo_world 5 [demo_credential (js ''linkedin'') (Some 9)])
      (demo_request (js ''hello'') (Some (js ''https://img''))) =
      (\<lparr>status = 200, error = None, requiresReauth = False, success = True,
         postId = Some (js ''s1'')\<rparr>,
       [SelectCredential (js ''u1'') (js ''linkedin''), RegisterUpload (js ''urn:li:person:abc''),
        CreatePost \<lparr>author = js ''urn:li:person:abc'', shareCommentary = js ''hello'',
                    shareMediaCategory = NONE, media = None\<rparr>])"
    by (simp add: linkedin_post_def demo_request_def demo_env demo_select demo_client_ok
        e a u r upload_steps_def person_urn_def post_outcome_def Let_def)
  ultimately show ?thesis
    by simp
qed

theorem server_image_failure_witness:
  "status (fst (server_linkedin_post (demo_world 5 [demo_credential (js ''linkedin'') (Some 9)])
     (demo_request (js ''hello'') (Some (js ''https://img''))))) = 500 \<and>
   \<not> list_ex is_creation
      (snd (server_linkedin_post (demo_world 5 [demo_credential (js ''linkedin'') (Some 9)])
         (demo_request (js ''hello'') (Some (js ''https://img''))))) \<and>
   list_ex is_creation
      (snd (linkedin_post (demo_world 5 [demo_credential (js ''linkedin'') (Some 9)])
         (demo_request (js ''hello'') (Some (js ''https://img'')))))"
  using server_image_failure by (simp add: failure_simps)

section \<open>The credential table keeps one row per user and platform\<close>

lemma row_key_write_row: "row_key (write_row p r) = row_key r"
  by (simp add: row_key_def write_row_def)

lemma conflicts_key: "conflicts p r \<longleftrightarrow> row_key r = (w_user_id p, w_platform p)"
  by (auto simp: conflicts_def row_key_def)

lemma list_ex_conflicts:
  "list_ex (conflicts p) rows \<longleftrightarrow> (w_user_id p, w_platform p) \<in> set (map row_key rows)"
  by (force simp: list_ex_iff conflicts_key)

lemma upsert_keys:
  assumes "upsert p rows = Some rows'"
  shows "map row_key rows' =
           (if (w_user_id p, w_platform p) \<in> set (map row_key rows) then map row_key rows
            else map row_key rows @ [(w_user_id p, w_platform p)])"
proof (cases "w_access_token p")
  case None
  with assms show ?thesis by (simp add: upsert_def)
next
  case (Some tok)
  have m: "map row_key (map (\<lambda>r. if conflicts p r then write_row p r else r) rows) =
      map row_key rows"
    by (induction rows) (simp_all add: row_key_write_row)
  have i: "row_key (insert_row p tok) = (w_user_id p, w_platform p)"
    by (simp add: row_key_def insert_row_def)
  show ?thesis
    using assms Some m i by (auto simp: upsert_def list_ex_conflicts)
qed

lemma upsert_invariant:
  assumes "one_row_per_key rows" and "upsert p rows = Some rows'"
  shows "one_row_per_key rows'"
  using assms(1) unfolding one_row_per_key_def upsert_keys [OF assms(2)] by auto

lemma db_upsert_invariant:
  assumes "one_row_per_key rows" and "db_upsert e p rows = Some rows'"
  shows "one_row_per_key rows'"
  using assms upsert_invariant [of rows p rows']
  by (auto simp: db_upsert_def split: if_splits)

lemma upsert_has_key:
  assumes "upsert p rows = Some rows'"
  shows "(w_user_id p, w_platform p) \<in> set (map row_key rows')"
  unfolding upsert_keys [OF assms] by auto

lemma reflects_write_row:
  "conflicts p r \<Longrightarrow> w_access_token p = Some tok \<Longrightarrow> reflects p (write_row p r)"
  by (simp add: reflects_def write_row_def conflicts_def sent_def shows_sent_def
      split: option.splits)

lemma reflects_insert_row: "w_access_token p = Some tok \<Longrightarrow> reflects p (insert_row p tok)"
  by (simp add: reflects_def insert_row_def sent_def shows_sent_def split: option.splits)

lemma upsert_reflects:
  assumes "upsert p rows = Some rows'" and "r \<in> set rows'"
    and "row_key r = (w_user_id p, w_platform p)"
  shows "reflects p r"
proof -
  obtain tok where tok: "w_access_token p = Some tok"
    using assms(1) by (auto simp: upsert_def split: option.splits)
  show ?thesis
  proof (cases "list_ex (conflicts p) rows")
    case True
    then have "rows' = map (\<lambda>r. if conflicts p r then write_row p r else r) rows"
      using assms(1) tok by (simp add: upsert_def)
    then obtain r0 where r0: "r0 \<in> set rows" "r = (if conflicts p r0 then write_row p r0 else r0)"
      using assms(2) by auto
    then have "conflicts p r0"
      using assms(3) by (auto simp: conflicts_key row_key_write_row split: if_splits)
    then show ?thesis
      using r0 tok by (simp add: reflects_write_row)
  next
    case False
    then have "rows' = rows @ [insert_row p tok]"
      using assms(1) tok by (simp add: upsert_def)
    moreover have "r \<notin> set rows"
      using False assms(3) by (auto simp: list_ex_iff conflicts_key)
    ultimately have "r = insert_row p tok"
      using assms(2) by auto
    then show ?thesis
      using tok by (simp add: reflects_insert_row)
  qed
qed

lemma distinct_filter_one:
  assumes "distinct (map f xs)" and "k \<in> set (map f xs)"
  shows "\<exists>x. filter (\<lambda>y. f y = k) xs = [x]"
  using assms
proof (induction xs)
  case Nil
  then show ?case by simp
next
  case (Cons a xs)
  show ?case
  proof (cases "f a = k")
    case True
    have "f a \<notin> f ` set xs"
      using Cons.prems(1) by simp
    then have "\<forall>x \<in> set xs. f x \<noteq> k"
      using True by (metis imageI)
    then have "filter (\<lambda>y. f y = k) xs = []"
      by (simp add: filter_empty_conv)
    then show ?thesis
      using True by simp
  next
    case False
    then show ?thesis
      using Cons by auto
  qed
qed

lemma upsert_one_row:
  assumes "one_row_per_key rows" and "upsert p rows = Some rows'"
  shows "\<exists>r. filter (\<lambda>r. row_key r = (w_user_id p, w_platform p)) rows' = [r] \<and> reflects p r"
proof -
  have "distinct (map row_key rows')"
    using upsert_invariant [OF assms] by (simp add: one_row_per_key_def)
  then obtain r where r: "filter (\<lambda>r. row_key r = (w_user_id p, w_platform p)) rows' = [r]"
    using distinct_filter_one [of row_key rows'] upsert_has_key [OF assms(2)] by blast
  then have "r \<in> set (filter (\<lambda>r. row_key r = (w_user_id p, w_platform p)) rows')"
    by simp
  then have "r \<in> set rows'" "row_key r = (w_user_id p, w_platform p)"
    by simp_all
  then have "reflects p r"
    using upsert_reflects [OF assms(2)] by blast
  with r show ?thesis
    by blast
qed

lemma save_credential_writes:
  "credentials (save_credential e p st) = credentials st \<or>
   db_upsert e p (credentials st) = Some (credentials (save_credential e p st))"
  by (cases "db_upsert e p (credentials st)") (simp_all add: save_credential_def)

lemma handleAuthCallback_cases:
  "handleAuthCallback user t e session st = st \<or>
   (\<exists>p. handleAuthCallback user t e session st = save_credential e p st)"
  by (auto simp: handleAuthCallback_def Let_def split: option.splits)

lemma handleTwitterCallback_cases:
  "handleTwitterCallback user t e d st = st \<or>
   (\<exists>p. handleTwitterCallback user t e d st = save_credential e p st)"
  by (auto simp: handleTwitterCallback_def split: option.splits)

lemma handleAuthCallback_writes:
  "credentials (handleAuthCallback user t e session st) = credentials st \<or>
   (\<exists>p. db_upsert e p (credentials st) =
          Some (credentials (handleAuthCallback user t e session st)))"
  using handleAuthCallback_cases [of user t e session st] save_credential_writes [of e _ st]
  by metis

lemma handleTwitterCallback_writes:
  "credentials (handleTwitterCallback user t e d st) = credentials st \<or>
   (\<exists>p. db_upsert e p (credentials st) =
          Some (credentials (handleTwitterCallback user t e d st)))"
  using handleTwitterCallback_cases [of user t e d st] save_credential_writes [of e _ st]
  by metis

lemma server_linkedin_callback_writes:
  "snd (server_linkedin_callback w q rows) = rows \<or>
   (\<exists>p. db_upsert (oauth_db_error w) p rows = Some (snd (server_linkedin_callback w q rows)))"
  by (auto simp: server_linkedin_callback_def split: option.splits reply.splits)

lemma linkedin_callback_writes:
  "snd (linkedin_callback w q rows) = rows \<or>
   (\<exists>p. db_upsert (oauth_db_error w) p rows = Some (snd (linkedin_callback w q rows)))"
  by (auto simp: linkedin_callback_def split: option.splits reply.splits)

text \<open>
  C2. On a table with at most one row per user and platform, two upserts with the same
  user and platform leave exactly one row for that key, and the row holds the access
  token and every column that the second write sent; the table still has at most one row
  per key. Every connect flow (the two callbacks of the browser and the two LinkedIn
  callbacks of the servers) keeps the invariant, whatever it is given and whether the
  database accepts the write or refuses it.
\<close>

theorem credential_upsert_one_row:
  assumes "one_row_per_key rows"
  shows "(w_user_id p2 = w_user_id p1 \<and> w_platform p2 = w_platform p1 \<and>
          upsert p1 rows = Some rows1 \<and> upsert p2 rows1 = Some rows2 \<longrightarrow>
            (\<exists>r. filter (\<lambda>r. row_key r = (w_user_id p2, w_platform p2)) rows2 = [r] \<and>
                 reflects p2 r) \<and>
            one_row_per_key rows2) \<and>
         one_row_per_key
           (credentials (handleAuthCallback user t e session \<lparr>storage = ls, credentials = rows\<rparr>)) \<and>
         one_row_per_key
           (credentials (handleTwitterCallback user t e d \<lparr>storage = ls, credentials = rows\<rparr>)) \<and>
         one_row_per_key (snd (server_linkedin_callback w q rows)) \<and>
         one_row_per_key (snd (linkedin_callback w q rows))"
proof -
  have a: "upsert p1 rows = Some rows1 \<and> upsert p2 rows1 = Some rows2 \<longrightarrow>
      (\<exists>r. filter (\<lambda>r. row_key r = (w_user_id p2, w_platform p2)) rows2 = [r] \<and>
           reflects p2 r) \<and>
      one_row_per_key rows2"
  proof (intro impI, elim conjE)
    assume u1: "upsert p1 rows = Some rows1" and u2: "upsert p2 rows1 = Some rows2"
    have i1: "one_row_per_key rows1"
      using assms u1 by (rule upsert_invariant)
    show "(\<exists>r. filter (\<lambda>r. row_key r = (w_user_id p2, w_platform p2)) rows2 = [r] \<and>
           reflects p2 r) \<and> one_row_per_key rows2"
      using upsert_one_row [OF i1 u2] upsert_invariant [OF i1 u2] by blast
  qed
  have b: "one_row_per_key
      (credentials (handleAuthCallback user t e session \<lparr>storage = ls, credentials = rows\<rparr>))"
    using handleAuthCallback_writes [of user t e session "\<lparr>storage = ls, credentials = rows\<rparr>"]
      assms db_upsert_invariant [of rows e]
    by auto
  have c: "one_row_per_key
      (credentials (handleTwitterCallback user t e d \<lparr>storage = ls, credentials = rows\<rparr>))"
    using handleTwitterCallback_writes [of user t e d "\<lparr>storage = ls, credentials = rows\<rparr>"]
      assms db_upsert_invariant [of rows e]
    by auto
  have d: "one_row_per_key (snd (server_linkedin_callback w q rows))"
    using server_linkedin_callback_writes [of w q rows] assms
      db_upsert_invariant [of rows "oauth_db_error w"]
    by auto
  have f: "one_row_per_key (snd (linkedin_callback w q rows))"
    using linkedin_callback_writes [of w q rows] assms
      db_upsert_invariant [of rows "oauth_db_error w"]
    by auto
  show ?thesis
    using a b c d f by blast
qed

theorem credential_upsert_one_row_witness:
  "one_row_per_key [] \<and>
   upsert (demo_write (js ''first'') None) [] =
     Some [insert_row (demo_write (js ''first'') None) (js ''first'')] \<and>
   upsert (demo_write (js ''second'') (Some 7))
       [insert_row (demo_write (js ''first'') None) (js ''first'')] =
     Some [write_row (demo_write (js ''second'') (Some 7))
             (insert_row (demo_write (js ''first'') None) (js ''first''))] \<and>
   (\<exists>r. filter (\<lambda>r. row_key r = (js ''u1'', js ''x''))
          [write_row (demo_write (js ''second'') (Some 7))
             (insert_row (demo_write (js ''first'') None) (js ''first''))] = [r] \<and>
        reflects (demo_write (js ''second'') (Some 7)) r \<and>
        access_token r = js ''second'' \<and> expires_at r = Some 7)"
proof -
  define p1 where "p1 = demo_write (js ''first'') None"
  define p2 where "p2 = demo_write (js ''second'') (Some 7)"
  have k: "w_user_id p2 = w_user_id p1" "w_platform p2 = w_platform p1"
    "w_user_id p2 = js ''u1''" "w_platform p2 = js ''x''"
    by (simp_all add: p1_def p2_def demo_write_def)
  have i: "one_row_per_key []"
    by (simp add: one_row_per_key_def)
  have u1: "upsert p1 [] = Some [insert_row p1 (js ''first'')]"
    by (simp add: upsert_def p1_def demo_write_def)
  have c: "conflicts p2 (insert_row p1 (js ''first''))"
    by (simp add: conflicts_def insert_row_def p1_def p2_def demo_write_def)
  have u2: "upsert p2 [insert_row p1 (js ''first'')] =
      Some [write_row p2 (insert_row p1 (js ''first''))]"
    using c by (simp add: upsert_def) (simp add: p2_def demo_write_def)
  have v: "access_token (write_row p2 (insert_row p1 (js ''first''))) = js ''second''"
    "expires_at (write_row p2 (insert_row p1 (js ''first''))) = Some 7"
    by (simp_all add: write_row_def sent_def p2_def demo_write_def)
  have "\<exists>r. filter (\<lambda>r. row_key r = (w_user_id p2, w_platform p2))
        [write_row p2 (insert_row p1 (js ''first''))] = [r] \<and> reflects p2 r"
    using credential_upsert_one_row [OF i, of p2 p1 "[insert_row p1 (js ''first'')]"
        "[write_row p2 (insert_row p1 (js ''first''))]"] k u1 u2
    by blast
  then have "\<exists>r. filter (\<lambda>r. row_key r = (js ''u1'', js ''x''))
        [write_row p2 (insert_row p1 (js ''first''))] = [r] \<and> reflects p2 r \<and>
        access_token r = js ''second'' \<and> expires_at r = Some 7"
    using v unfolding k(3,4) by (auto split: if_splits)
  then show ?thesis
    using i u1 u2 unfolding p1_def p2_def by blast
qed

section \<open>OAuth results in localStorage are used while fresh\<close>

lemma stamp_text:
  "the (or_else (storage st k) (Some (js ''0''))) =
     (case storage st k of None \<Rightarrow> js ''0'' | Some s \<Rightarrow> if s = [] then js ''0'' else s)"
  by (simp add: or_else_def truthy_def split: option.splits)

lemma flags_cleared_clear_flags: "flags_cleared (clear_flags st)"
  by (simp add: flags_cleared_def clear_flags_def js_def)

lemma credentials_clear_flags: "credentials (clear_flags st) = credentials st"
  by (simp add: clear_flags_def)

text \<open>
  C9. When an OAuth result is found in localStorage, \<open>handleAuthCallback\<close> is called
  only if the result is less than 30000 milliseconds old; a result of 30000 milliseconds
  or more is dropped, with no call and no change to the credential table; a fresh result
  whose session parses is handed to \<open>handleAuthCallback\<close> once; and in every case the
  three localStorage flags are cleared.
\<close>

theorem checkLocalStorageAuth_fresh:
  assumes "result_found st"
  shows "(snd (checkLocalStorageAuth parse_session user t e st) \<noteq> [] \<longrightarrow>
            (\<exists>age. result_age t st = Some age \<and> age < 30000)) \<and>
         ((\<exists>age. result_age t st = Some age \<and> 30000 \<le> age) \<longrightarrow>
            snd (checkLocalStorageAuth parse_session user t e st) = [] \<and>
            credentials (fst (checkLocalStorageAuth parse_session user t e st)) = credentials st) \<and>
         ((\<exists>age. result_age t st = Some age \<and> age < 30000) \<and>
          parse_session (the (storage st (js ''oauth_session''))) = Some session \<longrightarrow>
            checkLocalStorageAuth parse_session user t e st =
              (clear_flags (handleAuthCallback user t e session st), [session])) \<and>
         flags_cleared (fst (checkLocalStorageAuth parse_session user t e st))"
  using assms
  by (auto simp: checkLocalStorageAuth_def result_found_def result_age_def Let_def stamp_text
      flags_cleared_clear_flags credentials_clear_flags
      split: option.splits)

lemma parseInt_1000: "parseInt (js ''1000'') = Some 1000"
  by (simp add: parseInt_def js_def is_ws_def is_digit_def digit_value_def digits_value_def Let_def)

theorem checkLocalStorageAuth_fresh_witness:
  "result_found (demo_store (js ''1000'')) \<and>
   result_age 20000 (demo_store (js ''1000'')) = Some 19000 \<and>
   snd (checkLocalStorageAuth (\<lambda>s. Some demo_session) (Some (js ''u1'')) 20000 None
          (demo_store (js ''1000''))) = [demo_session] \<and>
   flags_cleared
     (fst (checkLocalStorageAuth (\<lambda>s. Some demo_session) (Some (js ''u1'')) 20000 None
             (demo_store (js ''1000'')))) \<and>
   result_age 31000 (demo_store (js ''1000'')) = Some 30000 \<and>
   snd (checkLocalStorageAuth (\<lambda>s. Some demo_session) (Some (js ''u1'')) 31000 None
          (demo_store (js ''1000''))) = [] \<and>
   flags_cleared
     (fst (checkLocalStorageAuth (\<lambda>s. Some demo_session) (Some (js ''u1'')) 31000 None
             (demo_store (js ''1000''))))"
proof -
  define st where "st = demo_store (js ''1000'')"
  have k: "storage st (js ''oauth_success'') = Some (js ''true'')"
    "storage st (js ''oauth_session'') = Some (js ''{}'')"
    "storage st (js ''oauth_timestamp'') = Some (js ''1000'')"
    by (simp_all add: st_def demo_store_def js_def)
  have f: "result_found st"
    by (simp add: result_found_def k truthy_def) (simp add: js_def)
  have n: "js ''1000'' \<noteq> []"
    by (simp add: js_def)
  have a1: "result_age 20000 st = Some 19000"
    by (simp add: result_age_def k n parseInt_1000)
  have a2: "result_age 31000 st = Some 30000"
    by (simp add: result_age_def k n parseInt_1000)
  note fresh = checkLocalStorageAuth_fresh [OF f, of "\<lambda>s. Some demo_session" "Some (js ''u1'')"
      20000 None demo_session]
  note stale = checkLocalStorageAuth_fresh [OF f, of "\<lambda>s. Some demo_session" "Some (js ''u1'')"
      31000 None demo_session]
  have c1: "snd (checkLocalStorageAuth (\<lambda>s. Some demo_session) (Some (js ''u1'')) 20000 None st) =
      [demo_session]"
    using fresh a1 by simp
  have c2: "flags_cleared
      (fst (checkLocalStorageAuth (\<lambda>s. Some demo_session) (Some (js ''u1'')) 20000 None st))"
    using fresh by blast
  have c3: "snd (checkLocalStorageAuth (\<lambda>s. Some demo_session) (Some (js ''u1'')) 31000 None st) = []"
    using stale a2 by simp
  have c4: "flags_cleared
      (fst (checkLocalStorageAuth (\<lambda>s. Some demo_session) (Some (js ''u1'')) 31000 None st))"
    using stale by blast
  show ?thesis
    using f a1 a2 c1 c2 c3 c4 unfolding st_def by blast
qed

section \<open>Generation: one call, and a parse failure throws\<close>

text \<open>
  C8, as the code has it. The driver calls the endpoint at most once: exactly once when a
  client is cached or an API key is configured, not at all when neither is, in which
  case it throws. When the text the endpoint returned, after the code fences are
  removed and it is trimmed, does not parse as JSON, the call throws a SyntaxError and
  returns nothing.
\<close>

theorem generateAllGeminiContent_once:
  "length (snd (snd (generateAllGeminiContent build_prompt w c campaign))) \<le> 1 \<and>
   (c \<noteq> None \<or> (\<exists>k. getGeminiApiKey w = Inr k) \<longrightarrow>
      snd (snd (generateAllGeminiContent build_prompt w c campaign)) = [build_prompt campaign]) \<and>
   (c = None \<and> getGeminiApiKey w = Inl MissingApiKey \<longrightarrow>
      generateAllGeminiContent build_prompt w c campaign = (Inl MissingApiKey, None, [])) \<and>
   (generateContent w (build_prompt campaign) = Some t \<and>
    json_parse (clean (if truthy t then the t else [])) = None \<longrightarrow>
      (\<exists>e. fst (generateAllGeminiContent build_prompt w c campaign) = Inl e) \<and>
      (c \<noteq> None \<or> (\<exists>k. getGeminiApiKey w = Inr k) \<longrightarrow>
         fst (generateAllGeminiContent build_prompt w c campaign) = Inl SyntaxError))"
  by (auto simp: generateAllGeminiContent_def getGeminiClient_def Let_def
      split: option.splits sum.splits)

lemma demo_key:
  "getGeminiApiKey (demo_gen None t) = Inl MissingApiKey"
  "getGeminiApiKey (demo_gen (Some (js ''k1'')) t) = Inr (js ''k1'')"
  by (simp_all add: getGeminiApiKey_def demo_gen_def or_else_def truthy_def Let_def)
    (simp_all add: js_def)

lemma clean_text: "clean (js ''oops'') = js ''oops''"
  by (simp add: clean_def trim_def is_ws_def js_def)

lemma parse_text: "json_parse (js ''oops'') = None"
  by (simp add: json_parse_def js_def skip_ws_def json_ws_def starts_with_def scan_number_def
      scan_int_def dec_digit_def)

theorem generateAllGeminiContent_once_witness:
  "getGeminiApiKey (demo_gen (Some (js ''k1'')) (js ''oops'')) = Inr (js ''k1'') \<and>
   generateContent (demo_gen (Some (js ''k1'')) (js ''oops'')) (js ''prompt'') =
     Some (Some (js ''oops'')) \<and>
   json_parse (clean (js ''oops'')) = None \<and>
   snd (snd (generateAllGeminiContent (\<lambda>c. c) (demo_gen (Some (js ''k1'')) (js ''oops'')) None
               (js ''prompt''))) = [js ''prompt''] \<and>
   fst (generateAllGeminiContent (\<lambda>c. c) (demo_gen (Some (js ''k1'')) (js ''oops'')) None
          (js ''prompt'')) = Inl SyntaxError"
proof -
  define w where "w = demo_gen (Some (js ''k1'')) (js ''oops'')"
  have k: "getGeminiApiKey w = Inr (js ''k1'')"
    by (simp add: w_def demo_key)
  have g: "generateContent w (js ''prompt'') = Some (Some (js ''oops''))"
    by (simp add: w_def demo_gen_def)
  have t: "truthy (Some (js ''oops''))"
    by (simp add: truthy_def js_def)
  have p: "json_parse (clean (js ''oops'')) = None"
    by (simp add: clean_text parse_text)
  have p': "json_parse (clean (if truthy (Some (js ''oops'')) then the (Some (js ''oops'')) else [])) =
      None"
    using t p by simp
  note th = generateAllGeminiContent_once [of "\<lambda>c. c" w None "js ''prompt''" "Some (js ''oops'')"]
  have "snd (snd (generateAllGeminiContent (\<lambda>c. c) w None (js ''prompt''))) = [js ''prompt'']"
    using th k by blast
  moreover have "fst (generateAllGeminiContent (\<lambda>c. c) w None (js ''prompt'')) = Inl SyntaxError"
    using th k g p' by blast
  ultimately show ?thesis
    using k g p unfolding w_def by blast
qed

text \<open>
  The claim as stated fails twice: without an API key the endpoint is not called at all,
  and a returned text wrapped in a code fence, which is not JSON, still yields the parsed
  content.
\<close>

theorem generateAllGeminiContent_counterexample:
  "snd (snd (generateAllGeminiContent (\<lambda>c. c) (demo_gen None (js ''{}'')) None (js ''prompt''))) = [] \<and>
   json_parse fenced_json = None \<and>
   generateContent (demo_gen (Some (js ''k1'')) fenced_json) (js ''prompt'') =
     Some (Some fenced_json) \<and>
   fst (generateAllGeminiContent (\<lambda>c. c) (demo_gen (Some (js ''k1'')) fenced_json) None
          (js ''prompt'')) = Inr (JObject [(js ''content'', JArray [])])"
proof -
  have a: "snd (snd (generateAllGeminiContent (\<lambda>c. c) (demo_gen None (js ''{}'')) None
      (js ''prompt''))) = []"
    by (simp add: generateAllGeminiContent_def getGeminiClient_def demo_key)
  have b: "json_parse fenced_json = None"
    by (simp add: fenced_json_def json_parse_def js_def skip_ws_def json_ws_def starts_with_def
        scan_number_def scan_int_def dec_digit_def)
  have c: "clean fenced_json = js ''{\"content\":[]}''"
    by (simp add: fenced_json_def clean_def js_def eq_ci_def ascii_upper_def trim_def is_ws_def)
  have d: "json_parse (js ''{\"content\":[]}'') = Some (JObject [(js ''content'', JArray [])])"
    by (simp add: json_parse_def js_def skip_ws_def json_ws_def starts_with_def)
  have e: "truthy (Some fenced_json)"
    by (simp add: truthy_def fenced_json_def)
  have f: "generateContent (demo_gen (Some (js ''k1'')) fenced_json) (js ''prompt'') =
      Some (Some fenced_json)"
    by (simp add: demo_gen_def)
  have "fst (generateAllGeminiContent (\<lambda>c. c) (demo_gen (Some (js ''k1'')) fenced_json) None
      (js ''prompt'')) = Inr (JObject [(js ''content'', JArray [])])"
    using e by (simp add: generateAllGeminiContent_def getGeminiClient_def demo_key f c d Let_def)
  then show ?thesis
    using a b f by blast
qed

section \<open>Saved items show the uploaded image\<close>












end
